theory Spec2Isabelle
  imports Complex_Main "HOL-Library.Sublist"
begin

chapter \<open>The query pipeline of the SCB API client (src/src/api-client.ts)\<close>

text \<open>
  The embedding follows the class \<^verbatim>\<open>SCBApiClient\<close> of \<^verbatim>\<open>src/src/api-client.ts\<close>
  (the second, complete copy of the class in that file, lines 402 to 1017).

  Conventions of the model.
  \<^item> A JavaScript string is a \<open>string\<close> holding its UTF-8 bytes.
  \<^item> A number that the server sends (\<^verbatim>\<open>maxCallsPerTimeWindow\<close>, \<^verbatim>\<open>timeWindow\<close>: any
    \<^verbatim>\<open>z.number()\<close>) is a \<open>rat\<close>, the exact value of the double, and arithmetic on it is
    exact. That is the arithmetic of the code wherever the operands and the result are
    whole numbers below \<open>2^53\<close> in magnitude; the properties below that depend on the
    arithmetic say so in a hypothesis. (The infinite values that JSON text such as
    \<^verbatim>\<open>1e999\<close> parses to are left out; every property below that reads such a number
    asks for a whole number.) \<^verbatim>\<open>requestCount\<close> is an \<open>int\<close>. The values of the
    cells of a dataset are of a type \<open>'n\<close> that the decoder only copies and adds up.
  \<^item> A \<^verbatim>\<open>Date\<close> is \<open>Some\<close> of its \<^verbatim>\<open>getTime()\<close> value, a whole number of milliseconds, or
    \<open>None\<close> when it is an Invalid Date (time value \<^verbatim>\<open>NaN\<close>). The clock readings
    (\<^verbatim>\<open>new Date()\<close>, \<^verbatim>\<open>Date.now()\<close>) are valid and are parameters of the operation
    that reads them.
  \<^item> An object used as a dictionary (\<^verbatim>\<open>Record<string, T>\<close>) is the list of its own
    entries in the order of their creation, with pairwise distinct keys; \<open>obj_set\<close> is
    the assignment \<^verbatim>\<open>obj[k] = v\<close>. \<^verbatim>\<open>Object.keys\<close> and \<^verbatim>\<open>Object.entries\<close> enumerate them
    as JavaScript does (\<open>own_entries\<close>: keys that are array indices first, in ascending
    numeric order, then the other keys in the order of their creation). A lookup
    \<^verbatim>\<open>obj[k]\<close> in an object literal or in parsed JSON finds an own entry or else the
    member of that name inherited from \<^verbatim>\<open>Object.prototype\<close> (\<open>js_get\<close>).
  \<^item> A thrown error is a value on the left of a sum; a Promise that rejects is the same
    value. State (the fields of the client) is passed explicitly.
\<close>

section \<open>Strings\<close>

definition digit_char :: "nat \<Rightarrow> char" where
  "digit_char n = ''0123456789'' ! n"

fun show_nat :: "nat \<Rightarrow> string" where
  "show_nat n = (if n < 10 then [digit_char n] else show_nat (n div 10) @ [digit_char (n mod 10)])"

text \<open>The decimal text of an integer, as a template literal prints it (below \<open>10^21\<close>).\<close>

definition show_int :: "int \<Rightarrow> string" where
  "show_int i = (if i < 0 then ''-'' @ show_nat (nat (- i)) else show_nat (nat i))"

text \<open>\<^verbatim>\<open>Math.ceil(w / 1000)\<close> on an integer \<open>w\<close>.\<close>

definition ceil_div_1000 :: "int \<Rightarrow> int" where
  "ceil_div_1000 w = - ((- w) div 1000)"

text \<open>
  \<^verbatim>\<open>String.prototype.toLowerCase\<close> on the UTF-8 bytes: the ASCII letters; the capital
  letters of the Latin-1 supplement (U+00C0 to U+00DE without U+00D7: the byte \<open>C3\<close>
  followed by \<open>80\<close> to \<open>9E\<close> without \<open>97\<close>, whose small letter has the second byte
  \<open>A0\<close> to \<open>BE\<close>); the Kelvin sign U+212A (\<open>E2 84 AA\<close>), whose small letter is \<open>k\<close>, and
  the Angstrom sign U+212B (\<open>E2 84 AB\<close>), whose small letter is U+00E5. These are all
  the characters whose small letter is an ASCII letter or one of the letters U+00E5,
  U+00E4 and U+00F6 that the keys of the tables below are written with, so the model
  decides every lookup in those tables as the code does. The cased letters of other
  scripts are left as they are.
\<close>

definition ascii_lower_of :: "(char \<times> char) list" where
  "ascii_lower_of = zip ''ABCDEFGHIJKLMNOPQRSTUVWXYZ'' ''abcdefghijklmnopqrstuvwxyz''"

definition latin1_lower_of :: "(char \<times> char) list" where
  "latin1_lower_of =
     zip [CHR 0x80, CHR 0x81, CHR 0x82, CHR 0x83, CHR 0x84, CHR 0x85, CHR 0x86, CHR 0x87,
        CHR 0x88, CHR 0x89, CHR 0x8A, CHR 0x8B, CHR 0x8C, CHR 0x8D, CHR 0x8E, CHR 0x8F,
        CHR 0x90, CHR 0x91, CHR 0x92, CHR 0x93, CHR 0x94, CHR 0x95, CHR 0x96, CHR 0x98,
        CHR 0x99, CHR 0x9A, CHR 0x9B, CHR 0x9C, CHR 0x9D, CHR 0x9E]
       [CHR 0xA0, CHR 0xA1, CHR 0xA2, CHR 0xA3, CHR 0xA4, CHR 0xA5, CHR 0xA6, CHR 0xA7,
        CHR 0xA8, CHR 0xA9, CHR 0xAA, CHR 0xAB, CHR 0xAC, CHR 0xAD, CHR 0xAE, CHR 0xAF,
        CHR 0xB0, CHR 0xB1, CHR 0xB2, CHR 0xB3, CHR 0xB4, CHR 0xB5, CHR 0xB6, CHR 0xB8,
        CHR 0xB9, CHR 0xBA, CHR 0xBB, CHR 0xBC, CHR 0xBD, CHR 0xBE]"

definition lower_ascii :: "char \<Rightarrow> char" where
  "lower_ascii c = (case map_of ascii_lower_of c of Some l \<Rightarrow> l | None \<Rightarrow> c)"

fun toLowerCase :: "string \<Rightarrow> string" where
  "toLowerCase (c # d # e # cs) =
     (if c = CHR 0xE2 \<and> d = CHR 0x84 \<and> e = CHR 0xAA then CHR ''k'' # toLowerCase cs
      else if c = CHR 0xE2 \<and> d = CHR 0x84 \<and> e = CHR 0xAB
      then CHR 0xC3 # CHR 0xA5 # toLowerCase cs
      else if c = CHR 0xC3
      then (case map_of latin1_lower_of d of
              Some l \<Rightarrow> c # l # toLowerCase (e # cs)
            | None \<Rightarrow> c # toLowerCase (d # e # cs))
      else lower_ascii c # toLowerCase (d # e # cs))"
| "toLowerCase [c, d] =
     (if c = CHR 0xC3
      then (case map_of latin1_lower_of d of
              Some l \<Rightarrow> [c, l]
            | None \<Rightarrow> c # toLowerCase [d])
      else lower_ascii c # toLowerCase [d])"
| "toLowerCase [c] = [lower_ascii c]"
| "toLowerCase [] = []"

fun startsWith :: "string \<Rightarrow> string \<Rightarrow> bool" where
  "startsWith s [] = True"
| "startsWith [] (p # ps) = False"
| "startsWith (c # cs) (p # ps) = (c = p \<and> startsWith cs ps)"

text \<open>\<^verbatim>\<open>s.includes(p)\<close>: \<open>p\<close> occurs in \<open>s\<close> as a contiguous substring.\<close>

fun includes_str :: "string \<Rightarrow> string \<Rightarrow> bool" where
  "includes_str [] p = (p = [])"
| "includes_str (c # cs) p = (startsWith (c # cs) p \<or> includes_str cs p)"

text \<open>\<^verbatim>\<open>xs.join(sep)\<close>.\<close>

fun join :: "string \<Rightarrow> string list \<Rightarrow> string" where
  "join sep [] = []"
| "join sep [x] = x"
| "join sep (x # y # ys) = x @ sep @ join sep (y # ys)"

definition is_digit :: "char \<Rightarrow> bool" where
  "is_digit c = (c \<in> set ''0123456789'')"

text \<open>The regular expressions \<^verbatim>\<open>/^\d{4}$/\<close> and \<^verbatim>\<open>/^\d{4}-\d{2}$/\<close>.\<close>

definition matches_year :: "string \<Rightarrow> bool" where
  "matches_year v = (length v = 4 \<and> list_all is_digit v)"

definition matches_year_month :: "string \<Rightarrow> bool" where
  "matches_year_month v =
     (length v = 7 \<and> list_all is_digit (take 4 v) \<and> v ! 4 = CHR ''-'' \<and> list_all is_digit (drop 5 v))"

text \<open>\<^verbatim>\<open>s.replace(a, b)\<close> for one-character strings: the first occurrence only.\<close>

fun replace_first :: "char \<Rightarrow> char \<Rightarrow> string \<Rightarrow> string" where
  "replace_first a b [] = []"
| "replace_first a b (c # cs) = (if c = a then b # cs else c # replace_first a b cs)"

section \<open>Numbers and dates\<close>

definition is_whole :: "rat \<Rightarrow> bool" where
  "is_whole x = (of_int \<lfloor>x\<rfloor> = x)"

text \<open>
  The time values of a valid \<^verbatim>\<open>Date\<close> lie within 8.64e15 milliseconds of the epoch.
  \<^verbatim>\<open>new Date(x)\<close> for a number \<open>x\<close> is invalid beyond that range and otherwise holds \<open>x\<close>
  with its fraction cut off.
\<close>

definition max_time :: rat where
  "max_time = 8640000000000000"

definition js_truncate :: "rat \<Rightarrow> int" where
  "js_truncate x = (if 0 \<le> x then \<lfloor>x\<rfloor> else \<lceil>x\<rceil>)"

definition new_Date :: "rat \<Rightarrow> int option" where
  "new_Date x = (if \<bar>x\<bar> \<le> max_time then Some (js_truncate x) else None)"

text \<open>
  What a template literal prints for a number: a whole number below \<open>10^21\<close> prints its
  decimal digits, and so does \<^verbatim>\<open>Math.ceil(ms / 1000)\<close> for a whole \<open>ms\<close> up to \<open>2^53\<close>.
  For the other numbers (fractions, which print their shortest decimal, and quotients
  that round) the text is what the JavaScript engine prints, a parameter \<open>pr\<close> of the
  model.
\<close>

datatype printed = NumberText rat | CeilSeconds int

definition template_text :: "(printed \<Rightarrow> string) \<Rightarrow> printed \<Rightarrow> string" where
  "template_text pr p =
     (case p of
        NumberText x \<Rightarrow>
          if is_whole x \<and> \<bar>x\<bar> < 1000000000000000000000 then show_int \<lfloor>x\<rfloor> else pr p
      | CeilSeconds ms \<Rightarrow>
          if \<bar>ms\<bar> \<le> 9007199254740992 then show_int (ceil_div_1000 ms) else pr p)"

section \<open>Objects as dictionaries\<close>

text \<open>The assignment \<^verbatim>\<open>obj[k] = v\<close>: an existing key keeps its place, a new key goes last.\<close>

fun obj_set :: "(string \<times> 'v) list \<Rightarrow> string \<Rightarrow> 'v \<Rightarrow> (string \<times> 'v) list" where
  "obj_set [] k v = [(k, v)]"
| "obj_set ((k', v') # kvs) k v = (if k' = k then (k, v) # kvs else (k', v') # obj_set kvs k v)"

text \<open>
  A key is an array index when it is the decimal text, without a leading zero, of a
  whole number up to \<open>2^32 - 2\<close>.
\<close>

definition digit_value :: "char \<Rightarrow> int" where
  "digit_value c = (case map_of (zip ''0123456789'' [0, 1, 2, 3, 4, 5, 6, 7, 8, 9]) c of
                      Some n \<Rightarrow> n | None \<Rightarrow> 0)"

definition decimal_value :: "string \<Rightarrow> int" where
  "decimal_value s = foldl (\<lambda>n c. 10 * n + digit_value c) 0 s"

definition array_index :: "string \<Rightarrow> int option" where
  "array_index s =
     (if s \<noteq> [] \<and> list_all is_digit s \<and> (length s = 1 \<or> hd s \<noteq> CHR ''0'') \<and>
         decimal_value s < 4294967295
      then Some (decimal_value s) else None)"

text \<open>
  The order in which \<^verbatim>\<open>Object.keys\<close>, \<^verbatim>\<open>Object.entries\<close> and \<^verbatim>\<open>for ... in\<close> go through
  the own entries of an object.
\<close>

definition index_of_key :: "string \<times> 'v \<Rightarrow> int" where
  "index_of_key kv = (case array_index (fst kv) of Some n \<Rightarrow> n | None \<Rightarrow> 0)"

definition own_entries :: "(string \<times> 'v) list \<Rightarrow> (string \<times> 'v) list" where
  "own_entries kvs =
     sort_key index_of_key (filter (\<lambda>kv. array_index (fst kv) \<noteq> None) kvs) @
     filter (\<lambda>kv. array_index (fst kv) = None) kvs"

definition own_keys :: "(string \<times> 'v) list \<Rightarrow> string list" where
  "own_keys kvs = map fst (own_entries kvs)"

text \<open>
  The members every object literal inherits from \<^verbatim>\<open>Object.prototype\<close>. All of them are
  functions, except \<^verbatim>\<open>__proto__\<close>, which reads as \<^verbatim>\<open>Object.prototype\<close> itself; all of
  them are truthy.
\<close>

definition object_prototype :: "string list" where
  "object_prototype =
     [''constructor'', ''__defineGetter__'', ''__defineSetter__'', ''hasOwnProperty'',
      ''__lookupGetter__'', ''__lookupSetter__'', ''isPrototypeOf'', ''propertyIsEnumerable'',
      ''toString'', ''valueOf'', ''__proto__'', ''toLocaleString'']"

text \<open>
  What a lookup in a table of strings can give: a string, or the inherited member of
  the given name.
\<close>

datatype jsval = Str string | Inherited string

definition js_get :: "(string \<times> string) list \<Rightarrow> string \<Rightarrow> jsval option" where
  "js_get obj k =
     (case map_of obj k of
        Some v \<Rightarrow> Some (Str v)
      | None \<Rightarrow> if k \<in> set object_prototype then Some (Inherited k) else None)"

fun truthy :: "jsval \<Rightarrow> bool" where
  "truthy (Str s) = (s \<noteq> [])"
| "truthy (Inherited n) = True"

text \<open>
  \<^verbatim>\<open>String(v)\<close>, which is also the property key \<open>v\<close> becomes when it indexes an object:
  a native function prints as its source text, \<^verbatim>\<open>Object.prototype\<close> as
  \<^verbatim>\<open>[object Object]\<close>.
\<close>

definition inherited_text :: "string \<Rightarrow> string" where
  "inherited_text n =
     (if n = ''__proto__'' then ''[object Object]''
      else ''function '' @ (if n = ''constructor'' then ''Object'' else n) @
           ''() { [native code] }'')"

fun to_text :: "jsval \<Rightarrow> string" where
  "to_text (Str s) = s"
| "to_text (Inherited n) = inherited_text n"

section \<open>The usage window\<close>

record RateLimitInfo =
  remaining :: rat
  resetTime :: "int option"
  maxCalls :: rat
  timeWindow :: rat

text \<open>The mutable fields of the client (\<^verbatim>\<open>baseUrl\<close> never changes and decides nothing here).\<close>

record SCBApiClient =
  rateLimitInfo :: "RateLimitInfo option"
  requestCount :: int
  windowStartTime :: int

text \<open>The constructor, run at time \<open>t\<close>.\<close>

definition newClient :: "int \<Rightarrow> SCBApiClient" where
  "newClient t = \<lparr>rateLimitInfo = None, requestCount = 0, windowStartTime = t\<rparr>"

text \<open>
  What is thrown: the error of \<^verbatim>\<open>checkRateLimit\<close> with the numbers its message is made
  of (the wait in milliseconds, \<open>None\<close> when it is \<^verbatim>\<open>NaN\<close>; the count; the capacity), an
  \<^verbatim>\<open>Error\<close> with its message, or a \<^verbatim>\<open>TypeError\<close> of the engine with its message.
\<close>

datatype exn = RateLimitExceeded "int option" int rat | Error string | TypeError string

fun message :: "(printed \<Rightarrow> string) \<Rightarrow> exn \<Rightarrow> string" where
  "message pr (RateLimitExceeded waitTime used cap) =
     ''Rate limit exceeded. Try again in '' @
     (case waitTime of None \<Rightarrow> ''NaN'' | Some ms \<Rightarrow> template_text pr (CeilSeconds ms)) @
     '' seconds. Current usage: '' @ show_int used @ ''/'' @ template_text pr (NumberText cap)"
| "message pr (Error m) = m"
| "message pr (TypeError m) = m"

text \<open>
  What the unguarded \<^verbatim>\<open>/config\<close> request of \<^verbatim>\<open>initializeRateLimit\<close> comes to: the fetch
  throws, the response is not ok, the body is not a valid config (\<^verbatim>\<open>json()\<close> or the schema
  throws), or a config with \<^verbatim>\<open>maxCallsPerTimeWindow\<close> and \<^verbatim>\<open>timeWindow\<close>.
\<close>

datatype config_fetch = FetchThrows | ResponseNotOk | BodyInvalid | Config rat rat

definition defaultRateLimit :: "int \<Rightarrow> RateLimitInfo" where
  "defaultRateLimit t =
     \<lparr>remaining = 30, resetTime = new_Date (of_int t + 10000), maxCalls = 30, timeWindow = 10\<rparr>"

text \<open>\<open>t\<close> is the reading of \<^verbatim>\<open>Date.now()\<close> in the branch taken.\<close>

definition initializeRateLimit :: "config_fetch \<Rightarrow> int \<Rightarrow> SCBApiClient \<Rightarrow> SCBApiClient" where
  "initializeRateLimit cf t c =
     (if rateLimitInfo c \<noteq> None then c
      else case cf of
          ResponseNotOk \<Rightarrow> c\<lparr>rateLimitInfo := Some (defaultRateLimit t)\<rparr>
        | Config m w \<Rightarrow>
            c\<lparr>rateLimitInfo :=
                Some \<lparr>remaining = m, resetTime = new_Date (of_int t + w * 1000),
                      maxCalls = m, timeWindow = w\<rparr>\<rparr>
        | FetchThrows \<Rightarrow> c\<lparr>rateLimitInfo := Some (defaultRateLimit t)\<rparr>
        | BodyInvalid \<Rightarrow> c\<lparr>rateLimitInfo := Some (defaultRateLimit t)\<rparr>)"

text \<open>
  \<^verbatim>\<open>now >= resetTime\<close> on two dates compares their time values; with an Invalid Date
  the comparison is false.
\<close>

definition date_reached :: "int \<Rightarrow> int option \<Rightarrow> bool" where
  "date_reached now d = (case d of None \<Rightarrow> False | Some rt \<Rightarrow> rt \<le> now)"

text \<open>
  \<^verbatim>\<open>checkRateLimit\<close>: \<open>cf\<close> and \<open>t\<close> feed the lazy initialisation, \<open>now\<close> is
  \<^verbatim>\<open>new Date()\<close>. The state is returned also when the check throws: the reset of the
  window has happened by then.
\<close>

definition checkRateLimit ::
  "config_fetch \<Rightarrow> int \<Rightarrow> int \<Rightarrow> SCBApiClient \<Rightarrow> (exn + unit) \<times> SCBApiClient" where
  "checkRateLimit cf t now c =
     (let c1 = (if rateLimitInfo c = None then initializeRateLimit cf t c else c) in
      case rateLimitInfo c1 of
        None \<Rightarrow> (Inl (TypeError ''Cannot read properties of null (reading 'resetTime')''), c1)
      | Some r \<Rightarrow>
          let r2 = (if date_reached now (resetTime r)
                    then r\<lparr>resetTime := new_Date (of_int now + timeWindow r * 1000),
                           remaining := maxCalls r\<rparr>
                    else r);
              c2 = (if date_reached now (resetTime r)
                    then c1\<lparr>requestCount := 0, windowStartTime := now, rateLimitInfo := Some r2\<rparr>
                    else c1)
          in if of_int (requestCount c2) \<ge> maxCalls r2
             then (Inl (RateLimitExceeded
                          (case resetTime r2 of None \<Rightarrow> None | Some rt \<Rightarrow> Some (rt - now))
                          (requestCount c2) (maxCalls r2)), c2)
             else (Inr (), c2))"

text \<open>
  The recording of a call, as \<^verbatim>\<open>makeRequest\<close> (lines 490 to 493) and \<^verbatim>\<open>getTableData\<close>
  (lines 832 to 835) do it after the fetch has resolved.
\<close>

definition recordCall :: "SCBApiClient \<Rightarrow> SCBApiClient" where
  "recordCall c =
     (let n = requestCount c + 1 in
      c\<lparr>requestCount := n,
        rateLimitInfo :=
          (case rateLimitInfo c of
             None \<Rightarrow> None
           | Some r \<Rightarrow> Some (r\<lparr>remaining := max 0 (maxCalls r - of_int n)\<rparr>))\<rparr>)"

text \<open>
  What the transport gives one request: the fetch rejects (nothing is recorded), or it
  resolves and the handling of the response (status, content type, JSON, schema) either
  throws an error with a message or yields the parsed value.
\<close>

datatype 'a fetch_outcome = FetchRejects string | Responds "string + 'a"

record 'a io =
  io_config :: config_fetch
  io_init_now :: int
  io_now :: int
  io_fetch :: "'a fetch_outcome"
  io_print :: "printed \<Rightarrow> string"

definition makeRequest :: "'a io \<Rightarrow> SCBApiClient \<Rightarrow> (exn + 'a) \<times> SCBApiClient" where
  "makeRequest w c =
     (case checkRateLimit (io_config w) (io_init_now w) (io_now w) c of
        (Inl e, c1) \<Rightarrow> (Inl e, c1)
      | (Inr u, c1) \<Rightarrow>
          (case io_fetch w of
             FetchRejects m \<Rightarrow> (Inl (Error m), c1)
           | Responds out \<Rightarrow>
               (case out of
                  Inl m \<Rightarrow> (Inl (Error m), recordCall c1)
                | Inr v \<Rightarrow> (Inr v, recordCall c1))))"

text \<open>
  The two steps of a call taken apart, for calls that overlap: \<^verbatim>\<open>makeRequest\<close> awaits the
  fetch between its check and its recording, so the check of a second call can run in
  between.
\<close>

datatype event = Check config_fetch int int | Record

fun apply_event :: "event \<Rightarrow> SCBApiClient \<Rightarrow> SCBApiClient" where
  "apply_event (Check cf t now) c = snd (checkRateLimit cf t now c)"
| "apply_event Record c = recordCall c"

definition run_events :: "event list \<Rightarrow> SCBApiClient \<Rightarrow> SCBApiClient" where
  "run_events es c = fold apply_event es c"

definition admitted :: "config_fetch \<Rightarrow> int \<Rightarrow> int \<Rightarrow> SCBApiClient \<Rightarrow> bool" where
  "admitted cf t now c = (case fst (checkRateLimit cf t now c) of Inl e \<Rightarrow> False | Inr u \<Rightarrow> True)"

text \<open>\<^verbatim>\<open>used <= capacity\<close>, once the limits are known.\<close>

definition quota_ok :: "SCBApiClient \<Rightarrow> bool" where
  "quota_ok c =
     (case rateLimitInfo c of None \<Rightarrow> True | Some r \<Rightarrow> of_int (requestCount c) \<le> maxCalls r)"

text \<open>
  \<^verbatim>\<open>resetTime = windowStartTime + timeWindow\<close> seconds: \<open>resetTime\<close> is a valid date and
  its time value is that of \<open>windowStartTime\<close> plus a thousand times \<open>timeWindow\<close>.
\<close>

definition window_consistent :: "SCBApiClient \<Rightarrow> bool" where
  "window_consistent c =
     (case rateLimitInfo c of
        None \<Rightarrow> False
      | Some r \<Rightarrow>
          (case resetTime r of
             None \<Rightarrow> False
           | Some rt \<Rightarrow> of_int rt = of_int (windowStartTime c) + timeWindow r * 1000))"

text \<open>
  The invariant of the client between calls: no call is counted before the limits are
  known, and afterwards the count stays within a capacity that is a whole number and not
  negative.
\<close>

definition usage_invariant :: "SCBApiClient \<Rightarrow> bool" where
  "usage_invariant c =
     (case rateLimitInfo c of
        None \<Rightarrow> requestCount c = 0
      | Some r \<Rightarrow> is_whole (maxCalls r) \<and> 0 \<le> maxCalls r \<and> of_int (requestCount c) \<le> maxCalls r)"

text \<open>
  The window has run out when \<^verbatim>\<open>checkRateLimit\<close> compares: \<^verbatim>\<open>now >= resetTime\<close>, on the
  limits as the lazy initialisation leaves them.
\<close>

definition reset_due :: "config_fetch \<Rightarrow> int \<Rightarrow> int \<Rightarrow> SCBApiClient \<Rightarrow> bool" where
  "reset_due cf t now c =
     (case rateLimitInfo (initializeRateLimit cf t c) of
        None \<Rightarrow> False
      | Some r \<Rightarrow> date_reached now (resetTime r))"

text \<open>The capacity a config response advertises is a whole number and not negative.\<close>

definition capacity_ok :: "config_fetch \<Rightarrow> bool" where
  "capacity_ok cf = (case cf of Config m w \<Rightarrow> is_whole m \<and> 0 \<le> m | _ \<Rightarrow> True)"

text \<open>
  A window of \<open>w\<close> seconds that starts at the time \<open>t\<close> ends at a date: \<open>w\<close> is a whole
  number of milliseconds, and \<open>t\<close>, the length of the window and its end all lie in the
  range of the time values of a \<^verbatim>\<open>Date\<close>. The sum \<^verbatim>\<open>t + w * 1000\<close> is then exact in
  the arithmetic of the code.
\<close>

definition window_in_range :: "int \<Rightarrow> rat \<Rightarrow> bool" where
  "window_in_range t w =
     (is_whole (w * 1000) \<and> \<bar>w * 1000\<bar> \<le> max_time \<and> \<bar>of_int t\<bar> \<le> max_time \<and>
      \<bar>of_int t + w * 1000\<bar> \<le> max_time)"

section \<open>The name translator\<close>

text \<open>The letters \<^verbatim>\<open>U+00E5\<close>, \<^verbatim>\<open>U+00E4\<close> and \<^verbatim>\<open>U+00F6\<close> of the Swedish keys, in UTF-8.\<close>

definition a_ring :: string where "a_ring = [CHR 0xC3, CHR 0xA5]"
definition a_uml :: string where "a_uml = [CHR 0xC3, CHR 0xA4]"
definition o_uml :: string where "o_uml = [CHR 0xC3, CHR 0xB6]"

definition variableMapping :: "(string \<times> string) list" where
  "variableMapping =
    [(a_ring @ ''r'', ''Tid''),
     (''m'' @ a_ring @ ''nad'', ''Tid''),
     (''k'' @ o_uml @ ''n'', ''Kon''),
     (a_ring @ ''lder'', ''Alder''),
     (''l'' @ a_uml @ ''n'', ''Region''),
     (''kommun'', ''Region''),
     (''utbildning'', ''UtbildningsNiva''),
     (''syssels'' @ a_uml @ ''ttning'', ''Sysselsattning''),
     (''inkomst'', ''Inkomst''),
     (''familjetyp'', ''Familjetyp''),
     (''civilst'' @ a_ring @ ''nd'', ''Civilstand''),
     (''year'', ''Tid''),
     (''time'', ''Tid''),
     (''month'', ''Tid''),
     (''sex'', ''Kon''),
     (''gender'', ''Kon''),
     (''age'', ''Alder''),
     (''county'', ''Region''),
     (''municipality'', ''Region''),
     (''education'', ''UtbildningsNiva''),
     (''employment'', ''Sysselsattning''),
     (''income'', ''Inkomst''),
     (''family_type'', ''Familjetyp''),
     (''marital_status'', ''Civilstand''),
     (''region'', ''Region''),
     (''alder'', ''Alder''),
     (''kon'', ''Kon''),
     (''tid'', ''Tid''),
     (''utbildningsniva'', ''UtbildningsNiva''),
     (''sysselsattning'', ''Sysselsattning''),
     (''civilstand'', ''Civilstand''),
     (''contentscode'', ''ContentsCode''),
     (''observations'', ''ContentsCode''),
     (''contents'', ''ContentsCode'')]"

text \<open>
  Line 611: \<^verbatim>\<open>variableMapping[key] || variableMapping[key.toLowerCase()] || key\<close>, and the
  property key that the result becomes in line 612. A lookup finds an entry of the table
  or an inherited member; both are truthy (every value of the table is a non-empty
  string), so \<^verbatim>\<open>||\<close> moves on exactly when the lookup finds nothing.
\<close>

definition mappedKey :: "string \<Rightarrow> string" where
  "mappedKey key =
     (case js_get variableMapping key of
        Some v \<Rightarrow> to_text v
      | None \<Rightarrow>
          (case js_get variableMapping (toLowerCase key) of
             Some v \<Rightarrow> to_text v
           | None \<Rightarrow> key))"

type_synonym selection = "(string \<times> string list) list"

text \<open>The loop of lines 609 to 613 over \<^verbatim>\<open>Object.entries(selection)\<close>; \<open>lang\<close> is not used.\<close>

definition translateCommonVariables :: "selection \<Rightarrow> string \<Rightarrow> selection" where
  "translateCommonVariables sel lang =
     fold (\<lambda>(key, values) translatedSelection.
             obj_set translatedSelection (mappedKey key) values) (own_entries sel) []"

section \<open>The value translator\<close>

definition valueMapping :: "(string \<times> (string \<times> string) list) list" where
  "valueMapping =
    [(''Alder'',
        [(''total'', ''tot''), (''all'', ''tot''), (''totalt'', ''tot''), (''totals'', ''TotSA'')]),
     (''Tid'',
        [(''latest'', ''2024''), (''recent'', ''2024''), (''current'', ''2024'')]),
     (''Kon'',
        [(''total'', ''tot''), (''all'', ''tot''), (''male'', ''1''), (''female'', ''2''),
         (''men'', ''1''), (''women'', ''2''), (''man'', ''1''), (''woman'', ''2'')]),
     (''*'',
        [(''total'', ''tot''), (''all'', ''*''), (''totalt'', ''tot''), (''alla'', ''*'')])]"

text \<open>
  \<^verbatim>\<open>m && m[k]\<close> for the table \<open>m = valueMapping[table]\<close>: the lookup in \<open>m\<close> finds an
  entry or an inherited member, and what it finds is truthy. The name \<open>table\<close> is
  \<^verbatim>\<open>*\<close> or the key of a translated selection, which never is the name of an inherited
  member (lemma \<open>mappedKey_not_inherited\<close>); for such a name \<^verbatim>\<open>valueMapping[table]\<close>
  would be an inherited function, whose own members the model does not follow.
\<close>

definition lookup_in :: "string \<Rightarrow> string \<Rightarrow> jsval option" where
  "lookup_in table k =
     (case map_of valueMapping table of None \<Rightarrow> None | Some m \<Rightarrow> js_get m k)"

text \<open>The function mapped over the values in lines 653 to 676, on a string.\<close>

definition translateValue :: "string \<Rightarrow> string \<Rightarrow> jsval" where
  "translateValue variableName v =
     (case lookup_in variableName (toLowerCase v) of
        Some r \<Rightarrow> r
      | None \<Rightarrow>
          (case lookup_in ''*'' (toLowerCase v) of
             Some r \<Rightarrow> r
           | None \<Rightarrow>
               if variableName = ''Tid'' \<and> matches_year v then Str v
               else if variableName = ''Tid'' \<and> matches_year_month v
                    then Str (replace_first (CHR ''-'') (CHR ''M'') v)
               else Str v))"

text \<open>\<^verbatim>\<open>xs.map(f)\<close> for an \<open>f\<close> that can throw: the first exception ends the loop.\<close>

fun map_exn :: "('a \<Rightarrow> exn + 'b) \<Rightarrow> 'a list \<Rightarrow> exn + 'b list" where
  "map_exn f [] = Inr []"
| "map_exn f (x # xs) =
     (case f x of
        Inl e \<Rightarrow> Inl e
      | Inr y \<Rightarrow> (case map_exn f xs of Inl e \<Rightarrow> Inl e | Inr ys \<Rightarrow> Inr (y # ys)))"

text \<open>
  \<^verbatim>\<open>translateCommonValues\<close>. Its result can hold a value that is no string, so the
  values it is given are of the same kind; on one that is no string the call
  \<^verbatim>\<open>value.toLowerCase()\<close> throws.
\<close>

definition toLowerCase_error :: exn where
  "toLowerCase_error = TypeError ''value.toLowerCase is not a function''"

definition translateCommonValues :: "jsval list \<Rightarrow> string \<Rightarrow> exn + jsval list" where
  "translateCommonValues values variableName =
     map_exn (\<lambda>value. case value of
                 Str v \<Rightarrow> Inr (translateValue variableName v)
               | Inherited n \<Rightarrow> Inl toLowerCase_error)
       values"

section \<open>Table metadata and datasets\<close>

text \<open>
  The type \<^verbatim>\<open>Dataset\<close> of \<^verbatim>\<open>src/src/types.ts\<close>. Of a dimension's category, \<open>cat_index\<close>
  holds the entries of \<^verbatim>\<open>category.index\<close> (a code and its position) as the payload
  lists them and \<open>cat_label\<close> the entries of \<^verbatim>\<open>category.label\<close>. The schema makes
  \<^verbatim>\<open>dimension\<close> and \<^verbatim>\<open>category.label\<close> mandatory; they are optional here because the code
  tests for them.
\<close>

record DimensionDef =
  dim_label :: string
  cat_index :: "(string \<times> rat) list"
  cat_label :: "(string \<times> string) list option"

record 'n Dataset =
  ds_id :: "string list"
  ds_label :: string
  ds_source :: "string option"
  ds_updated :: "string option"
  ds_size :: "rat list"
  ds_dimension :: "(string \<times> DimensionDef) list option"
  ds_value :: "'n option list option"

definition getTableMetadata ::
  "'n Dataset io \<Rightarrow> string \<Rightarrow> string \<Rightarrow> SCBApiClient \<Rightarrow> (exn + 'n Dataset) \<times> SCBApiClient" where
  "getTableMetadata w tableId lang c = makeRequest w c"

section \<open>The selection validator\<close>

type_synonym translated_selection = "(string \<times> jsval list) list"

record ValidationResult =
  isValid :: bool
  errors :: "string list"
  suggestions :: "string list"
  translatedSelection :: "translated_selection option"

text \<open>A loop whose body can throw: the first exception ends it.\<close>

fun fold_exn :: "('a \<Rightarrow> 's \<Rightarrow> exn + 's) \<Rightarrow> 'a list \<Rightarrow> 's \<Rightarrow> exn + 's" where
  "fold_exn f [] s = Inr s"
| "fold_exn f (x # xs) s = (case f x s of Inl e \<Rightarrow> Inl e | Inr s' \<Rightarrow> fold_exn f xs s')"

text \<open>Lines 690 to 694: the values of every translated variable, translated.\<close>

definition translateSelectionValues :: "selection \<Rightarrow> exn + translated_selection" where
  "translateSelectionValues sel =
     fold_exn (\<lambda>(varName, values) finalSelection.
                 case translateCommonValues (map Str values) varName of
                   Inl e \<Rightarrow> Inl e
                 | Inr translated \<Rightarrow> Inr (obj_set finalSelection varName translated))
       (own_entries sel) []"

text \<open>Lines 713 to 720; the pair is \<open>(errors, suggestions)\<close>.\<close>

definition missingVariables :: "string list \<Rightarrow> string list \<Rightarrow> string list" where
  "missingVariables availableVariables selectedVariables =
     filter (\<lambda>varName. varName \<notin> set selectedVariables) availableVariables"

definition checkMissing ::
  "string list \<Rightarrow> string list \<times> string list \<Rightarrow> string list \<times> string list" where
  \<open>checkMissing missing es =
     (if length missing > 0
      then (fst es @ [''Missing mandatory variables: '' @ join '', '' missing],
            snd es @
              [''SCB tables require all dimensions to be specified. Add these variables to your selection: ''
                 @ join '', '' missing,
               ''Use "*" as value to select all values for a dimension, e.g. {"'' @ hd missing
                 @ ''": ["*"]}''])
      else es)\<close>

text \<open>The wildcard advice that opens the second suggestion of \<open>checkMissing\<close>.\<close>

definition wildcard_hint :: string where
  \<open>wildcard_hint = ''Use "*" as value to select all values for a dimension''\<close>

text \<open>
  Lines 746 to 768: one value of a variable the table has. On a value that is no string,
  \<^verbatim>\<open>value === '*'\<close> is false and the call \<^verbatim>\<open>value.startsWith('TOP(')\<close> throws.
\<close>

definition startsWith_error :: exn where
  "startsWith_error = TypeError ''value.startsWith is not a function''"

definition checkValue ::
  "string \<Rightarrow> string \<Rightarrow> string list \<Rightarrow> jsval \<Rightarrow>
     string list \<times> string list \<Rightarrow> exn + string list \<times> string list" where
  \<open>checkValue tableId varCode availableValues value es =
     (case value of
        Inherited n \<Rightarrow> Inl startsWith_error
      | Str v \<Rightarrow>
          Inr (if v = ''*'' \<or> startsWith v ''TOP('' \<or> startsWith v ''BOTTOM('' \<or>
                  startsWith v ''RANGE(''
               then es
               else if v \<notin> set availableValues
               then (let similarValues =
                           take 3 (filter (\<lambda>a. includes_str (toLowerCase a) (toLowerCase v))
                                     availableValues)
                     in (fst es @ [''Value "'' @ v @ ''" not found for variable "'' @ varCode @ ''"''],
                         snd es @
                           [if length similarValues > 0
                            then ''For "'' @ varCode @ ''", did you mean: '' @
                                 join '', '' similarValues @ ''?''
                            else ''Use scb_get_table_variables with tableId="'' @ tableId
                                   @ ''" and variableName="'' @ varCode @ ''" to see all values'']))
               else es))\<close>

text \<open>
  Lines 723 to 769: one entry of the translated selection. The filter of line 729 reads the
  label of each available variable from the metadata; it runs over the entries here.
\<close>

definition checkVariable ::
  "string \<Rightarrow> (string \<times> DimensionDef) list \<Rightarrow> string \<times> jsval list \<Rightarrow>
     string list \<times> string list \<Rightarrow> exn + string list \<times> string list" where
  \<open>checkVariable tableId dims entry es =
     (let varCode = fst entry; values = snd entry; availableVariables = own_keys dims in
      if varCode \<notin> set availableVariables
      then (let similar =
                  map fst (filter (\<lambda>(v, d).
                     includes_str (toLowerCase v) (toLowerCase varCode) \<or>
                     includes_str (toLowerCase (dim_label d)) (toLowerCase varCode))
                     (own_entries dims))
            in Inr (fst es @ [''Variable "'' @ varCode @ ''" not found in table''],
                    snd es @
                      [if length similar > 0
                       then ''Did you mean: '' @ join '', '' (map (\<lambda>v. ''"'' @ v @ ''"'') similar) @ ''?''
                       else ''Available variables: '' @ join '', '' availableVariables]))
      else (case map_of dims varCode of
              None \<Rightarrow> Inr es
            | Some varDef \<Rightarrow>
                fold_exn (checkValue tableId varCode (own_keys (cat_index varDef))) values es))\<close>

text \<open>
  Every value that the loop of lines 746 to 768 looks at is a string: the values of the
  variables that the table has.
\<close>

fun is_string :: "jsval \<Rightarrow> bool" where
  "is_string (Str s) = True"
| "is_string (Inherited n) = False"

definition values_checkable ::
  "(string \<times> DimensionDef) list \<Rightarrow> (string \<times> jsval list) list \<Rightarrow> bool" where
  "values_checkable dims translated =
     list_all (\<lambda>(varCode, values). varCode \<in> set (own_keys dims) \<longrightarrow> list_all is_string values)
       translated"

text \<open>
  The body of the \<^verbatim>\<open>try\<close> block, lines 685 to 776. An exception leaves it from the
  translation, from the metadata request or from the loop over the translated selection;
  the errors and suggestions collected so far are local to the block and lost with it.
\<close>

definition validateSelection_try ::
  "'n Dataset io \<Rightarrow> string \<Rightarrow> selection \<Rightarrow> string \<Rightarrow> SCBApiClient \<Rightarrow>
     (exn + ValidationResult) \<times> SCBApiClient" where
  "validateSelection_try w tableId sel lang c =
     (case translateSelectionValues (translateCommonVariables sel lang) of
        Inl e \<Rightarrow> (Inl e, c)
      | Inr translated \<Rightarrow>
          (case getTableMetadata w tableId lang c of
             (Inl e, c1) \<Rightarrow> (Inl e, c1)
           | (Inr metadata, c1) \<Rightarrow>
               (case ds_dimension metadata of
                  None \<Rightarrow>
                    (Inr \<lparr>isValid = False,
                          errors = [''Table metadata not available for validation''],
                          suggestions = [''Try using scb_get_table_info first''],
                          translatedSelection = None\<rparr>, c1)
                | Some dims \<Rightarrow>
                    (let availableVariables = own_keys dims;
                         selectedVariables = own_keys translated;
                         start = checkMissing
                                   (missingVariables availableVariables selectedVariables) ([], [])
                     in case fold_exn (checkVariable tableId dims) (own_entries translated) start of
                          Inl e \<Rightarrow> (Inl e, c1)
                        | Inr es \<Rightarrow>
                            (Inr \<lparr>isValid = (length (fst es) = 0),
                                  errors = fst es,
                                  suggestions = snd es,
                                  translatedSelection = Some translated\<rparr>, c1)))))"

text \<open>\<^verbatim>\<open>validateSelection\<close>: the \<^verbatim>\<open>try\<close> block with its \<^verbatim>\<open>catch\<close>, lines 778 to 784.\<close>

definition validateSelection ::
  "'n Dataset io \<Rightarrow> string \<Rightarrow> selection \<Rightarrow> string \<Rightarrow> SCBApiClient \<Rightarrow>
     ValidationResult \<times> SCBApiClient" where
  "validateSelection w tableId sel lang c =
     (case validateSelection_try w tableId sel lang c of
        (Inr res, c1) \<Rightarrow> (res, c1)
      | (Inl e, c1) \<Rightarrow>
          (\<lparr>isValid = False,
            errors = [''Validation failed: '' @ message (io_print w) e],
            suggestions = [''Try checking if the table ID is correct with scb_get_table_info''],
            translatedSelection = None\<rparr>, c1))"

section \<open>Fetching data\<close>

definition validation_error_message :: "ValidationResult \<Rightarrow> string" where
  "validation_error_message v =
     ''Selection validation failed:'' @ [CHR 0x0A] @ join [CHR 0x0A] (errors v) @
     (if length (suggestions v) > 0
      then [CHR 0x0A, CHR 0x0A] @ ''Suggestions:'' @ [CHR 0x0A] @ join [CHR 0x0A] (suggestions v)
      else [])"

text \<open>
  \<^verbatim>\<open>getTableData\<close>, lines 787 to 897: \<open>wm\<close> is the world of the metadata request that the
  validation makes, \<open>wd\<close> that of the data request. The POST of lines 812 to 835 checks,
  fetches and records as \<^verbatim>\<open>makeRequest\<close> does; how the response is told apart (lines 837
  to 896) is the outcome \<open>io_fetch wd\<close>.
\<close>

definition getTableData ::
  "'n Dataset io \<Rightarrow> 'n Dataset io \<Rightarrow> string \<Rightarrow> selection option \<Rightarrow> string \<Rightarrow> SCBApiClient \<Rightarrow>
     (exn + 'n Dataset) \<times> SCBApiClient" where
  "getTableData wm wd tableId selection lang c =
     (case selection of
        None \<Rightarrow> makeRequest wd c
      | Some sel \<Rightarrow>
          (case validateSelection wm tableId sel lang c of
             (validation, c1) \<Rightarrow>
               if \<not> isValid validation
               then (Inl (Error (validation_error_message validation)), c1)
               else
                 (case checkRateLimit (io_config wd) (io_init_now wd) (io_now wd) c1 of
                    (Inl e, c2) \<Rightarrow> (Inl e, c2)
                  | (Inr u, c2) \<Rightarrow>
                      (case io_fetch wd of
                         FetchRejects m \<Rightarrow> (Inl (Error m), c2)
                       | Responds out \<Rightarrow>
                           (case out of
                              Inl m \<Rightarrow> (Inl (Error m), recordCall c2)
                            | Inr v \<Rightarrow> (Inr v, recordCall c2))))))"

text \<open>The public operations that spend quota, and a run of them one after the other.\<close>

datatype ('a, 'n) call =
    Request "'a io"
  | TableData "'n Dataset io" "'n Dataset io" string "selection option" string
  | Validate "'n Dataset io" string selection string

fun do_call :: "('a, 'n) call \<Rightarrow> SCBApiClient \<Rightarrow> SCBApiClient" where
  "do_call (Request w) c = snd (makeRequest w c)"
| "do_call (TableData wm wd tableId selection lang) c = snd (getTableData wm wd tableId selection lang c)"
| "do_call (Validate w tableId sel lang) c = snd (validateSelection w tableId sel lang c)"

definition run_calls :: "('a, 'n) call list \<Rightarrow> SCBApiClient \<Rightarrow> SCBApiClient" where
  "run_calls cs c = fold do_call cs c"

fun call_capacity_ok :: "('a, 'n) call \<Rightarrow> bool" where
  "call_capacity_ok (Request w) = capacity_ok (io_config w)"
| "call_capacity_ok (TableData wm wd tableId selection lang) =
     (capacity_ok (io_config wm) \<and> capacity_ok (io_config wd))"
| "call_capacity_ok (Validate w tableId sel lang) = capacity_ok (io_config w)"

section \<open>The dataset decoder\<close>

definition nameMapping :: "(string \<times> string) list" where
  "nameMapping =
    [(''Region'', ''region''),
     (''Alder'', ''age''),
     (''Kon'', ''sex''),
     (''Tid'', ''year''),
     (''UtbildningsNiva'', ''education_level''),
     (''ContentsCode'', ''observation_type''),
     (''Sysselsattning'', ''employment_status''),
     (''Civilstand'', ''marital_status''),
     (''Familjetyp'', ''family_type'')]"

text \<open>
  Line 1003: \<^verbatim>\<open>nameMapping[dimName] || dimName.toLowerCase()\<close>, as the text it is in the
  template literals of lines 947 and 948.
\<close>

definition getDimensionBaseName :: "string \<Rightarrow> string" where
  "getDimensionBaseName dimName =
     (case js_get nameMapping dimName of
        Some v \<Rightarrow> if truthy v then to_text v else toLowerCase dimName
      | None \<Rightarrow> toLowerCase dimName)"

text \<open>
  The values a field of an emitted record can hold: \<^verbatim>\<open>undefined\<close>, what a lookup in a
  table of strings gives, or the value of a cell.
\<close>

datatype 'n field = Undefined | Val jsval | Num 'n

type_synonym 'n jsrecord = "(string \<times> 'n field) list"

fun truthy_field :: "'n field \<Rightarrow> bool" where
  "truthy_field Undefined = False"
| "truthy_field (Val v) = truthy v"
| "truthy_field (Num n) = True"

text \<open>The property key a code is turned into when it indexes the labels.\<close>

fun property_key :: "'n field \<Rightarrow> string" where
  "property_key Undefined = ''undefined''"
| "property_key (Val v) = to_text v"
| "property_key (Num n) = []"

text \<open>
  One round of the loop of lines 934 to 949, for the dimension \<open>(dimName, dimDef)\<close>. The
  state is \<open>temp\<close> and the record under construction. \<open>temp\<close> is \<open>None\<close> once it is no
  longer a finite number: a dimension with no category makes \<^verbatim>\<open>temp % 0\<close> \<^verbatim>\<open>NaN\<close> and
  \<^verbatim>\<open>Math.floor(temp / 0)\<close> \<^verbatim>\<open>NaN\<close> or \<^verbatim>\<open>Infinity\<close>, and from then on every index is
  \<^verbatim>\<open>NaN\<close> and every code \<^verbatim>\<open>undefined\<close>. The codes are \<^verbatim>\<open>Object.keys\<close> of the index; the
  positions that the index gives the codes are not read.
\<close>

definition decodeDimension ::
  "string \<times> DimensionDef \<Rightarrow> nat option \<times> 'n jsrecord \<Rightarrow> nat option \<times> 'n jsrecord" where
  "decodeDimension entry st =
     (let dimName = fst entry; dimDef = snd entry; temp = fst st; record = snd st;
          codes = own_keys (cat_index dimDef);
          dimSize = length codes;
          dimIndex = (case temp of
                        None \<Rightarrow> None
                      | Some n \<Rightarrow> if dimSize = 0 then None else Some (n mod dimSize));
          temp' = (case temp of
                     None \<Rightarrow> None
                   | Some n \<Rightarrow> if dimSize = 0 then None else Some (n div dimSize));
          code = (case dimIndex of None \<Rightarrow> Undefined | Some k \<Rightarrow> Val (Str (codes ! k)));
          label = (case cat_label dimDef of
                     None \<Rightarrow> code
                   | Some labels \<Rightarrow>
                       (case js_get labels (property_key code) of
                          None \<Rightarrow> Undefined
                        | Some l \<Rightarrow> Val l));
          baseName = getDimensionBaseName dimName;
          record1 = obj_set record (baseName @ ''_code'') code;
          record2 = obj_set record1 (baseName @ ''_name'')
                      (if truthy_field label then label else code)
      in (temp', record2))"

text \<open>
  The record of one non-null cell, lines 930 to 951: the dimensions
  (\<^verbatim>\<open>Object.entries\<close> of the dimension mapping) are visited from the last to the first,
  then \<^verbatim>\<open>value\<close> is set.
\<close>

definition decodeRecord :: "(string \<times> DimensionDef) list \<Rightarrow> nat \<Rightarrow> 'n \<Rightarrow> 'n jsrecord" where
  "decodeRecord dimensions flatIndex v =
     obj_set (snd (fold decodeDimension (rev dimensions) (Some flatIndex, []))) ''value'' (Num v)"

text \<open>The \<^verbatim>\<open>forEach\<close> of lines 927 to 953 over the cells with their indices.\<close>

definition decodeCells :: "(string \<times> DimensionDef) list \<Rightarrow> 'n option list \<Rightarrow> 'n jsrecord list" where
  "decodeCells dimensions cells =
     fold (\<lambda>(flatIndex, cell) records.
             case cell of
               None \<Rightarrow> records
             | Some v \<Rightarrow> records @ [decodeRecord dimensions flatIndex v])
          (zip [0..<length cells] cells) []"

record 'n Summary =
  total_records :: nat
  non_null_records :: "nat option"
  total_value :: "'n option"
  has_data :: bool

text \<open>
  The result of \<^verbatim>\<open>transformToStructuredData\<close>. Of \<^verbatim>\<open>query\<close> the time stamp
  \<^verbatim>\<open>requested_at\<close> is left out; a field the early return does not set is \<open>None\<close>.
\<close>

record 'n StructuredData =
  query_selection :: "selection option"
  query_table_id :: "string option"
  data :: "'n jsrecord list"
  meta_source :: string
  meta_updated :: "string option"
  meta_table_name :: string
  meta_data_shape :: "rat list option"
  meta_dimensions :: "(string \<times> string \<times> nat) list option"
  summary :: "'n Summary"

definition source_or_default :: "string option \<Rightarrow> string" where
  "source_or_default src =
     (case src of None \<Rightarrow> ''Statistics Sweden''
      | Some s \<Rightarrow> if s = [] then ''Statistics Sweden'' else s)"

text \<open>
  \<^verbatim>\<open>record.value || 0\<close> (line 957): the value of the cell, and 0 in place of a value
  that is zero. The sum is taken from the left, with the addition of the type of the
  cells.
\<close>

fun record_value :: "('n :: zero) jsrecord \<Rightarrow> 'n" where
  "record_value r = (case map_of r ''value'' of Some (Num n) \<Rightarrow> n | _ \<Rightarrow> 0)"

definition transformToStructuredData ::
  "('n :: {zero, plus}) Dataset \<Rightarrow> selection option \<Rightarrow> 'n StructuredData" where
  "transformToStructuredData jsonStat2Data selection =
     (case (ds_value jsonStat2Data, ds_dimension jsonStat2Data) of
        (Some cells, Some dimension) \<Rightarrow>
          (let dimensions = own_entries dimension;
               records = decodeCells dimensions cells;
               totalRecords = length records
           in \<lparr>query_selection = Some (case selection of None \<Rightarrow> [] | Some sel \<Rightarrow> sel),
               query_table_id = (case ds_id jsonStat2Data of [] \<Rightarrow> None | x # xs \<Rightarrow> Some x),
               data = records,
               meta_source = source_or_default (ds_source jsonStat2Data),
               meta_updated = ds_updated jsonStat2Data,
               meta_table_name = ds_label jsonStat2Data,
               meta_data_shape = Some (ds_size jsonStat2Data),
               meta_dimensions =
                 Some (map (\<lambda>(name, d). (name, dim_label d, length (own_keys (cat_index d))))
                         dimensions),
               summary =
                 \<lparr>total_records = totalRecords,
                  non_null_records = Some (length records),
                  total_value = Some (foldl (\<lambda>sum record. sum + record_value record) 0 records),
                  has_data = (totalRecords > 0)\<rparr>\<rparr>)
      | _ \<Rightarrow>
          \<lparr>query_selection = selection,
           query_table_id = None,
           data = [],
           meta_source = source_or_default (ds_source jsonStat2Data),
           meta_updated = ds_updated jsonStat2Data,
           meta_table_name = ds_label jsonStat2Data,
           meta_data_shape = None,
           meta_dimensions = None,
           summary =
             \<lparr>total_records = 0, non_null_records = None, total_value = None,
              has_data = False\<rparr>\<rparr>)"

text \<open>The non-null cells with their flat indices, in ascending order of the index.\<close>

definition nonNullCells :: "'n option list \<Rightarrow> (nat \<times> 'n) list" where
  "nonNullCells cells =
     concat (map (\<lambda>(f, cell). case cell of None \<Rightarrow> [] | Some v \<Rightarrow> [(f, v)])
                 (zip [0..<length cells] cells))"

section \<open>Example data\<close>

text \<open>
  The table of the examples: two regions and two years. The index of the regions lists
  \<^verbatim>\<open>1484\<close> before \<^verbatim>\<open>0180\<close>, which is also the order of \<^verbatim>\<open>Object.keys\<close>.
\<close>

definition example_dimensions :: "(string \<times> DimensionDef) list" where
  "example_dimensions =
     [(''Region'',
         \<lparr>dim_label = ''region'',
          cat_index = [(''1484'', 0), (''0180'', 1)],
          cat_label = Some [(''1484'', ''Lysekil''), (''0180'', ''Stockholm'')]\<rparr>),
      (''Tid'',
         \<lparr>dim_label = ''year'',
          cat_index = [(''2023'', 0), (''2024'', 1)],
          cat_label = Some [(''2023'', ''2023''), (''2024'', ''2024'')]\<rparr>)]"

definition example_dataset :: "int option list option \<Rightarrow> int Dataset" where
  "example_dataset cells =
     \<lparr>ds_id = [''Region'', ''Tid''], ds_label = ''Population'', ds_source = None,
      ds_updated = None, ds_size = [2, 2], ds_dimension = Some example_dimensions,
      ds_value = cells\<rparr>"

text \<open>
  The same table as a payload that lists the region \<^verbatim>\<open>0180\<close> at position 0 and \<^verbatim>\<open>1484\<close>
  at position 1, for the year 2024 only.
\<close>

definition reordered_dimensions :: "(string \<times> DimensionDef) list" where
  "reordered_dimensions =
     [(''Region'',
         \<lparr>dim_label = ''region'',
          cat_index = [(''0180'', 0), (''1484'', 1)],
          cat_label = Some [(''0180'', ''Stockholm''), (''1484'', ''Lysekil'')]\<rparr>),
      (''Tid'',
         \<lparr>dim_label = ''year'',
          cat_index = [(''2024'', 0)],
          cat_label = Some [(''2024'', ''2024'')]\<rparr>)]"

definition reordered_dataset :: "int Dataset" where
  "reordered_dataset =
     \<lparr>ds_id = [''Region'', ''Tid''], ds_label = ''Population'', ds_source = None,
      ds_updated = None, ds_size = [2, 1], ds_dimension = Some reordered_dimensions,
      ds_value = Some [Some 975551, Some 14621]\<rparr>"

text \<open>A world with the given config, clock readings and outcome of the request.\<close>

definition world :: "config_fetch \<Rightarrow> int \<Rightarrow> int \<Rightarrow> 'a fetch_outcome \<Rightarrow> 'a io" where
  "world cf t now out =
     \<lparr>io_config = cf, io_init_now = t, io_now = now, io_fetch = out, io_print = (\<lambda>p. [])\<rparr>"

text \<open>A world in which the config request fails and the request itself comes to \<open>out\<close>.\<close>

definition example_world :: "'a fetch_outcome \<Rightarrow> 'a io" where
  "example_world out = world ResponseNotOk 0 0 out"

chapter \<open>Properties\<close>

section \<open>The usage window\<close>

lemma whole_succ: "is_whole m \<Longrightarrow> of_int n < m \<Longrightarrow> of_int (n + 1) \<le> m"
proof -
  assume w: "is_whole m" and l: "of_int n < m"
  obtain k where k: "m = of_int k" using w unfolding is_whole_def by metis
  have "n < k" using l unfolding k by (simp only: of_int_less_iff)
  then have "n + 1 \<le> k" by simp
  then show ?thesis unfolding k by (simp only: of_int_le_iff)
qed

lemma is_whole_numeral: "is_whole (numeral k)" "is_whole 0" "is_whole 1"
  by (simp_all add: is_whole_def)

lemma checkRateLimit_info:
  "\<exists>r. rateLimitInfo (snd (checkRateLimit cf t now c)) = Some r"
  by (auto simp: checkRateLimit_def initializeRateLimit_def Let_def
           split: option.splits config_fetch.splits)

lemma usage_invariant_check:
  "usage_invariant c \<Longrightarrow> capacity_ok cf \<Longrightarrow> usage_invariant (snd (checkRateLimit cf t now c))"
  by (auto simp: usage_invariant_def capacity_ok_def checkRateLimit_def initializeRateLimit_def
                 defaultRateLimit_def Let_def is_whole_numeral
           split: option.splits config_fetch.splits)

lemma checkRateLimit_admits:
  "checkRateLimit cf t now c = (Inr u, c1) \<Longrightarrow>
     \<exists>r. rateLimitInfo c1 = Some r \<and> of_int (requestCount c1) < maxCalls r"
  by (auto simp: checkRateLimit_def Let_def not_le split: option.splits if_splits)

lemma usage_invariant_recordCall:
  assumes "usage_invariant c" "rateLimitInfo c = Some r" "of_int (requestCount c) < maxCalls r"
  shows "usage_invariant (recordCall c)"
  using assms whole_succ[of "maxCalls r" "requestCount c"]
  by (simp add: usage_invariant_def recordCall_def Let_def)

lemma usage_invariant_record:
  assumes "usage_invariant c" "capacity_ok cf" "checkRateLimit cf t now c = (Inr u, c1)"
  shows "usage_invariant (recordCall c1)"
proof -
  have "usage_invariant c1"
    using usage_invariant_check[OF assms(1,2), of t now] assms(3) by simp
  then show ?thesis
    using checkRateLimit_admits[OF assms(3)] usage_invariant_recordCall by blast
qed

lemma usage_invariant_makeRequest:
  "usage_invariant c \<Longrightarrow> capacity_ok (io_config w) \<Longrightarrow> usage_invariant (snd (makeRequest w c))"
  using usage_invariant_check[of c "io_config w" "io_init_now w" "io_now w"]
        usage_invariant_record[of c "io_config w" "io_init_now w" "io_now w"]
  by (auto simp: makeRequest_def split: prod.splits sum.splits fetch_outcome.splits)

lemma snd_validateSelection_try:
  "snd (validateSelection_try w tableId sel lang c) = c \<or>
   snd (validateSelection_try w tableId sel lang c) = snd (makeRequest w c)"
  by (auto simp: validateSelection_try_def getTableMetadata_def Let_def
           split: prod.splits sum.splits option.splits)

lemma snd_validateSelection:
  "snd (validateSelection w tableId sel lang c) = snd (validateSelection_try w tableId sel lang c)"
  by (auto simp: validateSelection_def split: prod.splits sum.splits)

lemma usage_invariant_validateSelection:
  "usage_invariant c \<Longrightarrow> capacity_ok (io_config w) \<Longrightarrow>
     usage_invariant (snd (validateSelection w tableId sel lang c))"
  using snd_validateSelection_try[of w tableId sel lang c] usage_invariant_makeRequest[of c w]
  by (auto simp: snd_validateSelection)

lemma usage_invariant_getTableData:
  assumes "usage_invariant c" "capacity_ok (io_config wm)" "capacity_ok (io_config wd)"
  shows "usage_invariant (snd (getTableData wm wd tableId selection lang c))"
proof (cases selection)
  case None
  then show ?thesis
    using assms by (simp add: getTableData_def usage_invariant_makeRequest)
next
  case (Some sel)
  obtain v c1 where v: "validateSelection wm tableId sel lang c = (v, c1)"
    by force
  have c1: "usage_invariant c1"
    using usage_invariant_validateSelection[OF assms(1,2), of tableId sel lang] v by simp
  show ?thesis
    using Some v c1 usage_invariant_check[OF c1 assms(3), of "io_init_now wd" "io_now wd"]
          usage_invariant_record[OF c1 assms(3), of "io_init_now wd" "io_now wd"]
    by (auto simp: getTableData_def split: prod.splits sum.splits fetch_outcome.splits)
qed

lemma usage_invariant_do_call:
  "usage_invariant c \<Longrightarrow> call_capacity_ok k \<Longrightarrow> usage_invariant (do_call k c)"
  by (cases k)
     (auto simp: usage_invariant_makeRequest usage_invariant_getTableData
                 usage_invariant_validateSelection)

lemma usage_invariant_run_calls:
  "usage_invariant c \<Longrightarrow> list_all call_capacity_ok cs \<Longrightarrow> usage_invariant (run_calls cs c)"
  unfolding run_calls_def
  by (induction cs arbitrary: c) (auto simp: usage_invariant_do_call)

lemma usage_invariant_newClient: "usage_invariant (newClient tc)"
  by (simp add: usage_invariant_def newClient_def)

lemma usage_invariant_quota_ok: "usage_invariant c \<Longrightarrow> quota_ok c"
  by (auto simp: usage_invariant_def quota_ok_def split: option.splits)

lemma new_Date_in_range:
  assumes "window_in_range t w"
  shows "new_Date (of_int t + w * 1000) = Some (t + \<lfloor>w * 1000\<rfloor>)"
proof -
  obtain k where k: "w * 1000 = of_int k"
    using assms unfolding window_in_range_def is_whole_def by metis
  have "js_truncate (of_int t + of_int k) = t + k"
    by (simp add: js_truncate_def flip: of_int_add)
  then show ?thesis
    using assms unfolding window_in_range_def new_Date_def k by simp
qed

lemma check_resets_window:
  assumes "rateLimitInfo (initializeRateLimit cf t c) = Some r" "date_reached now (resetTime r)"
  shows "snd (checkRateLimit cf t now c) =
           c\<lparr>rateLimitInfo :=
               Some (r\<lparr>resetTime := new_Date (of_int now + timeWindow r * 1000),
                      remaining := maxCalls r\<rparr>),
             requestCount := 0, windowStartTime := now\<rparr>"
    and "admitted cf t now c = (0 < maxCalls r)"
  using assms
  by (auto simp: checkRateLimit_def admitted_def initializeRateLimit_def Let_def
           split: option.splits config_fetch.splits if_splits)

lemma window_consistent_record: "window_consistent (recordCall c) = window_consistent c"
  by (auto simp: recordCall_def window_consistent_def Let_def split: option.splits)

lemma window_consistent_after_reset:
  assumes "rateLimitInfo (snd (checkRateLimit cf t now c)) = Some r" "reset_due cf t now c"
    and "window_in_range now (timeWindow r)"
  shows "window_consistent (snd (checkRateLimit cf t now c))"
proof -
  obtain r' where r': "rateLimitInfo (initializeRateLimit cf t c) = Some r'"
    and d: "date_reached now (resetTime r')"
    using assms(2) by (auto simp: reset_due_def split: option.splits)
  have s: "snd (checkRateLimit cf t now c) =
           c\<lparr>rateLimitInfo :=
               Some (r'\<lparr>resetTime := new_Date (of_int now + timeWindow r' * 1000),
                      remaining := maxCalls r'\<rparr>),
             requestCount := 0, windowStartTime := now\<rparr>"
    using check_resets_window(1)[OF r' d] .
  have tw: "timeWindow r = timeWindow r'"
    using assms(1) unfolding s by auto
  obtain k where k: "timeWindow r' * 1000 = of_int k"
    using assms(3) unfolding window_in_range_def is_whole_def tw by metis
  show ?thesis
    unfolding s using new_Date_in_range[OF assms(3)] tw
    by (simp add: window_consistent_def k)
qed

lemma window_consistent_no_reset:
  assumes "window_consistent c" "\<not> reset_due cf t now c"
  shows "snd (checkRateLimit cf t now c) = c"
  using assms
  by (auto simp: window_consistent_def reset_due_def checkRateLimit_def initializeRateLimit_def
                 Let_def split: option.splits)

lemma lazy_initialisation:
  assumes "rateLimitInfo c = None" "\<not> reset_due cf t now c"
    and "rateLimitInfo (snd (checkRateLimit cf t now c)) = Some r"
  shows "resetTime r = new_Date (of_int t + timeWindow r * 1000)"
  using assms
  by (auto simp: checkRateLimit_def reset_due_def initializeRateLimit_def defaultRateLimit_def
                 Let_def
           split: option.splits config_fetch.splits if_splits)

lemmas request_defs =
  makeRequest_def checkRateLimit_def initializeRateLimit_def defaultRateLimit_def
  recordCall_def newClient_def date_reached_def new_Date_def js_truncate_def max_time_def
  world_def Let_def

text \<open>
  C1, for calls that do not overlap. From a fresh client, with calls made one after the
  other (each admission check followed at once by the recording of that call, when the
  check admitted it and the fetch resolved) and an advertised capacity that is a whole
  number and not negative, \<open>requestCount\<close> never exceeds \<open>maxCalls\<close>: not after a call,
  not after an admission check, not after the recording that follows an admitting check.
  And an admission check that finds the time at or past \<open>resetTime\<close>, with a time window
  of a whole number of milliseconds such that the length of the window and its end lie
  within the range of the time values of a \<^verbatim>\<open>Date\<close> (\<open>window_in_range\<close>), first sets
  \<open>requestCount\<close> to 0, \<open>windowStartTime\<close> to \<open>now\<close> and \<open>resetTime\<close> to \<open>now\<close> plus
  \<open>timeWindow\<close> seconds (and \<open>remaining\<close> to \<open>maxCalls\<close>), and admits on the count so
  reset.
\<close>

theorem quota_within_capacity_sequential:
  assumes "list_all call_capacity_ok cs" and "capacity_ok cf"
  shows "quota_ok (run_calls cs (newClient tc)) \<and>
         quota_ok (snd (checkRateLimit cf t now (run_calls cs (newClient tc)))) \<and>
         (admitted cf t now (run_calls cs (newClient tc)) \<longrightarrow>
            quota_ok (recordCall (snd (checkRateLimit cf t now (run_calls cs (newClient tc)))))) \<and>
         (rateLimitInfo (initializeRateLimit cf' t' c) = Some r \<and>
          date_reached now' (resetTime r) \<and> window_in_range now' (timeWindow r) \<longrightarrow>
            snd (checkRateLimit cf' t' now' c) =
              c\<lparr>rateLimitInfo :=
                  Some (r\<lparr>resetTime := Some (now' + \<lfloor>timeWindow r * 1000\<rfloor>),
                         remaining := maxCalls r\<rparr>),
                requestCount := 0, windowStartTime := now'\<rparr> \<and>
            admitted cf' t' now' c = (0 < maxCalls r))"
proof -
  let ?c = "run_calls cs (newClient tc)"
  have i: "usage_invariant ?c"
    using assms(1) by (simp add: usage_invariant_run_calls usage_invariant_newClient)
  have 1: "quota_ok ?c"
    using i by (rule usage_invariant_quota_ok)
  have 2: "quota_ok (snd (checkRateLimit cf t now ?c))"
    using usage_invariant_check[OF i assms(2)] by (rule usage_invariant_quota_ok)
  have 3: "admitted cf t now ?c \<longrightarrow> quota_ok (recordCall (snd (checkRateLimit cf t now ?c)))"
  proof
    assume "admitted cf t now ?c"
    then obtain c1 where "checkRateLimit cf t now ?c = (Inr (), c1)"
      by (cases "checkRateLimit cf t now ?c") (auto simp: admitted_def split: sum.splits)
    then show "quota_ok (recordCall (snd (checkRateLimit cf t now ?c)))"
      using usage_invariant_record[OF i assms(2)] usage_invariant_quota_ok by simp
  qed
  have 4: "rateLimitInfo (initializeRateLimit cf' t' c) = Some r \<and>
          date_reached now' (resetTime r) \<and> window_in_range now' (timeWindow r) \<longrightarrow>
            snd (checkRateLimit cf' t' now' c) =
              c\<lparr>rateLimitInfo :=
                  Some (r\<lparr>resetTime := Some (now' + \<lfloor>timeWindow r * 1000\<rfloor>),
                         remaining := maxCalls r\<rparr>),
                requestCount := 0, windowStartTime := now'\<rparr> \<and>
            admitted cf' t' now' c = (0 < maxCalls r)"
    using check_resets_window[of cf' t' c r now'] new_Date_in_range[of now' "timeWindow r"]
    by simp
  show ?thesis
    using 1 2 3 4 by blast
qed

text \<open>
  C1, an instance: one call under a capacity of 2, then an admitted check and its
  recording; and the first check of a client whose config fetch failed, made exactly
  when the default window of ten seconds ends.
\<close>

theorem quota_within_capacity_sequential_witness:
  "list_all call_capacity_ok
     [Request (world (Config 2 10) 0 0 (Responds (Inr ()))) :: (unit, unit) call] \<and>
   capacity_ok (Config 2 10) \<and>
   admitted (Config 2 10) 1 1
     (run_calls [Request (world (Config 2 10) 0 0 (Responds (Inr ()))) :: (unit, unit) call]
        (newClient 0)) \<and>
   quota_ok (recordCall (snd (checkRateLimit (Config 2 10) 1 1
     (run_calls [Request (world (Config 2 10) 0 0 (Responds (Inr ()))) :: (unit, unit) call]
        (newClient 0))))) \<and>
   rateLimitInfo (initializeRateLimit FetchThrows 0 (newClient 0)) = Some (defaultRateLimit 0) \<and>
   date_reached 10000 (resetTime (defaultRateLimit 0)) \<and>
   window_in_range 10000 (timeWindow (defaultRateLimit 0)) \<and>
   snd (checkRateLimit FetchThrows 0 10000 (newClient 0)) =
     \<lparr>rateLimitInfo =
        Some \<lparr>remaining = 30, resetTime = Some 20000, maxCalls = 30, timeWindow = 10\<rparr>,
      requestCount = 0, windowStartTime = 10000\<rparr> \<and>
   admitted FetchThrows 0 10000 (newClient 0)"
  using quota_within_capacity_sequential
          [where cs = "[Request (world (Config 2 10) 0 0 (Responds (Inr ()))) :: (unit, unit) call]"
             and cf = "Config 2 10" and tc = 0 and t = 1 and now = 1
             and cf' = FetchThrows and t' = 0 and c = "newClient 0"
             and r = "defaultRateLimit 0" and now' = 10000]
  by (simp add: request_defs run_calls_def quota_ok_def admitted_def capacity_ok_def
                window_in_range_def is_whole_def)

text \<open>
  C1 as stated fails. Two calls that overlap under a capacity of 1: both checks run
  before either recording, both admit, and the count reaches 2. A config that advertises
  the capacity \<open>-1\<close> leaves the count 0 above the capacity after the first check. Under
  the capacity 2.5, three calls made one after the other are all admitted (0, 1 and 2
  are below 2.5) and the count reaches 3. With a time window of 1/1024 of a second, the
  check at the time 1000 resets \<open>resetTime\<close> to the date 1000, the fraction of a
  millisecond cut off, which is not \<open>now\<close> plus \<open>timeWindow\<close> seconds. And with a time
  window of 8.64e12 seconds, the check at the last time value of a \<^verbatim>\<open>Date\<close> resets
  \<open>resetTime\<close> to an Invalid Date.
\<close>

theorem quota_exceeded_counterexample:
  "admitted (Config 1 10) 0 0 (newClient 0) \<and>
   admitted (Config 1 10) 0 0 (run_events [Check (Config 1 10) 0 0] (newClient 0)) \<and>
   \<not> quota_ok (run_events [Check (Config 1 10) 0 0, Check (Config 1 10) 0 0, Record, Record]
                 (newClient 0)) \<and>
   \<not> quota_ok (snd (checkRateLimit (Config (- 1) 10) 0 0 (newClient 0))) \<and>
   \<not> quota_ok (run_calls
                 [Request (world (Config (5 / 2) 10) 0 0 (Responds (Inr ()))),
                  Request (world (Config (5 / 2) 10) 0 0 (Responds (Inr ()))),
                  Request (world (Config (5 / 2) 10) 0 0 (Responds (Inr ()))) :: (unit, unit) call]
                 (newClient 0)) \<and>
   reset_due (Config 30 (1 / 1024)) 0 1000 (newClient 0) \<and>
   rateLimitInfo (snd (checkRateLimit (Config 30 (1 / 1024)) 0 1000 (newClient 0))) =
     Some \<lparr>remaining = 30, resetTime = Some 1000, maxCalls = 30, timeWindow = 1 / 1024\<rparr> \<and>
   \<not> window_consistent (snd (checkRateLimit (Config 30 (1 / 1024)) 0 1000 (newClient 0))) \<and>
   reset_due (Config 30 8640000000000) 0 8640000000000000 (newClient 0) \<and>
   rateLimitInfo (snd (checkRateLimit (Config 30 8640000000000) 0 8640000000000000 (newClient 0))) =
     Some \<lparr>remaining = 30, resetTime = None, maxCalls = 30, timeWindow = 8640000000000\<rparr>"
proof -
  have f: "\<lfloor>128125 / 128 :: rat\<rfloor> = 1000"
    by (rule floor_unique) simp_all
  show ?thesis
    by (simp add: request_defs run_calls_def run_events_def quota_ok_def window_consistent_def
                  admitted_def reset_due_def f)
qed

text \<open>
  C7, as the code has it. In every state reached from a fresh client by calls that do not
  overlap, under a capacity that is a whole number and not negative, an admission check
  leaves the limits known and \<open>requestCount \<le> maxCalls\<close>. When the time window is a
  whole number of milliseconds and its length and its end lie within the range of the
  time values of a \<^verbatim>\<open>Date\<close> (\<open>window_in_range\<close>), a check that
  resets the window leaves \<open>resetTime = windowStartTime + timeWindow\<close> seconds, and a
  check that initialises the limits without resetting the window leaves \<open>resetTime\<close> at
  the time of the initialisation plus \<open>timeWindow\<close> seconds. A check that does not reset
  the window keeps the relation when it finds it, and the recording of a call does not
  change it.
\<close>

theorem window_after_admission_check:
  assumes "list_all call_capacity_ok cs" and "capacity_ok cf"
  shows "(\<exists>r. rateLimitInfo (snd (checkRateLimit cf t now (run_calls cs (newClient tc)))) = Some r \<and>
              (rateLimitInfo (run_calls cs (newClient tc)) = None \<and>
               \<not> reset_due cf t now (run_calls cs (newClient tc)) \<and>
               window_in_range t (timeWindow r) \<longrightarrow>
                 resetTime r = Some (t + \<lfloor>timeWindow r * 1000\<rfloor>)) \<and>
              (reset_due cf t now (run_calls cs (newClient tc)) \<and>
               window_in_range now (timeWindow r) \<longrightarrow>
                 window_consistent (snd (checkRateLimit cf t now (run_calls cs (newClient tc)))))) \<and>
         quota_ok (snd (checkRateLimit cf t now (run_calls cs (newClient tc)))) \<and>
         (window_consistent (run_calls cs (newClient tc)) \<and>
          \<not> reset_due cf t now (run_calls cs (newClient tc)) \<longrightarrow>
            window_consistent (snd (checkRateLimit cf t now (run_calls cs (newClient tc))))) \<and>
         window_consistent (recordCall (snd (checkRateLimit cf t now (run_calls cs (newClient tc))))) =
           window_consistent (snd (checkRateLimit cf t now (run_calls cs (newClient tc))))"
proof -
  let ?c = "run_calls cs (newClient tc)"
  let ?c' = "snd (checkRateLimit cf t now ?c)"
  have i: "usage_invariant ?c"
    using assms(1) by (simp add: usage_invariant_run_calls usage_invariant_newClient)
  have q: "quota_ok ?c'"
    using usage_invariant_check[OF i assms(2)] by (rule usage_invariant_quota_ok)
  obtain r where r: "rateLimitInfo ?c' = Some r"
    using checkRateLimit_info by blast
  have a: "rateLimitInfo ?c = None \<and> \<not> reset_due cf t now ?c \<and> window_in_range t (timeWindow r) \<longrightarrow>
             resetTime r = Some (t + \<lfloor>timeWindow r * 1000\<rfloor>)"
    using lazy_initialisation[of ?c cf t now r] r new_Date_in_range[of t "timeWindow r"] by simp
  have b: "reset_due cf t now ?c \<and> window_in_range now (timeWindow r) \<longrightarrow> window_consistent ?c'"
    using window_consistent_after_reset[OF r] by blast
  have w: "window_consistent ?c \<and> \<not> reset_due cf t now ?c \<longrightarrow> window_consistent ?c'"
    using window_consistent_no_reset[of ?c cf t now] by auto
  show ?thesis
    using q r a b w window_consistent_record[of ?c'] by blast
qed

text \<open>
  C7, three instances: a check that resets the window after one call, followed by the
  recording of a call; the first check of a fresh client, which initialises the limits
  from the config; and a check that finds the relation and resets nothing.
\<close>

theorem window_after_admission_check_witness:
  "list_all call_capacity_ok
     [Request (world (Config 2 10) 3 3 (Responds (Inr ()))) :: (unit, unit) call] \<and>
   capacity_ok FetchThrows \<and>
   reset_due FetchThrows 4 10003
     (run_calls [Request (world (Config 2 10) 3 3 (Responds (Inr ()))) :: (unit, unit) call]
        (newClient 0)) \<and>
   window_in_range 10003 10 \<and>
   snd (checkRateLimit FetchThrows 4 10003
     (run_calls [Request (world (Config 2 10) 3 3 (Responds (Inr ()))) :: (unit, unit) call]
        (newClient 0))) =
     \<lparr>rateLimitInfo =
        Some \<lparr>remaining = 2, resetTime = Some 20003, maxCalls = 2, timeWindow = 10\<rparr>,
      requestCount = 0, windowStartTime = 10003\<rparr> \<and>
   quota_ok (snd (checkRateLimit FetchThrows 4 10003
     (run_calls [Request (world (Config 2 10) 3 3 (Responds (Inr ()))) :: (unit, unit) call]
        (newClient 0)))) \<and>
   window_consistent (snd (checkRateLimit FetchThrows 4 10003
     (run_calls [Request (world (Config 2 10) 3 3 (Responds (Inr ()))) :: (unit, unit) call]
        (newClient 0)))) \<and>
   window_consistent (recordCall (snd (checkRateLimit FetchThrows 4 10003
     (run_calls [Request (world (Config 2 10) 3 3 (Responds (Inr ()))) :: (unit, unit) call]
        (newClient 0))))) \<and>
   rateLimitInfo (run_calls ([] :: (unit, unit) call list) (newClient 0)) = None \<and>
   \<not> reset_due (Config 2 10) 3 3 (run_calls ([] :: (unit, unit) call list) (newClient 0)) \<and>
   window_in_range 3 10 \<and>
   rateLimitInfo (snd (checkRateLimit (Config 2 10) 3 3
                    (run_calls ([] :: (unit, unit) call list) (newClient 0)))) =
     Some \<lparr>remaining = 2, resetTime = Some 10003, maxCalls = 2, timeWindow = 10\<rparr> \<and>
   window_consistent
     (run_calls [Request (world (Config 2 10) 3 10003 (Responds (Inr ()))) :: (unit, unit) call]
        (newClient 0)) \<and>
   \<not> reset_due FetchThrows 4 10004
     (run_calls [Request (world (Config 2 10) 3 10003 (Responds (Inr ()))) :: (unit, unit) call]
        (newClient 0)) \<and>
   window_consistent (snd (checkRateLimit FetchThrows 4 10004
     (run_calls [Request (world (Config 2 10) 3 10003 (Responds (Inr ()))) :: (unit, unit) call]
        (newClient 0))))"
  using window_after_admission_check
          [where cs = "[Request (world (Config 2 10) 3 3 (Responds (Inr ()))) :: (unit, unit) call]"
             and cf = FetchThrows and tc = 0 and t = 4 and now = 10003]
        window_after_admission_check
          [where cs = "[] :: (unit, unit) call list" and cf = "Config 2 10" and tc = 0 and t = 3
             and now = 3]
        window_after_admission_check
          [where cs = "[Request (world (Config 2 10) 3 10003 (Responds (Inr ()))) :: (unit, unit) call]"
             and cf = FetchThrows and tc = 0 and t = 4 and now = 10004]
  by (simp add: request_defs run_calls_def quota_ok_def window_consistent_def capacity_ok_def
                reset_due_def window_in_range_def is_whole_def)

text \<open>
  C7 as stated fails. A client built at time 0 whose first check comes at time 5000 has
  \<open>windowStartTime = 0\<close> and \<open>resetTime = 15000\<close> with a window of ten seconds, on the
  default path and on the config path alike: the initialisation sets \<open>resetTime\<close> from
  its own clock reading and leaves \<open>windowStartTime\<close> as the constructor set it. A
  negative advertised capacity, two overlapping calls under a capacity of 1, and three
  calls in a row under the capacity 2.5 leave \<open>requestCount\<close> above \<open>maxCalls\<close> after an
  admission check. And a time window of \<open>10^13\<close> seconds makes \<open>resetTime\<close> an Invalid
  Date, which is no time at all.
\<close>

theorem window_relation_counterexample:
  "\<not> window_consistent (snd (checkRateLimit FetchThrows 5000 5000 (newClient 0))) \<and>
   \<not> window_consistent (snd (checkRateLimit (Config 30 10) 5000 5000 (newClient 0))) \<and>
   \<not> quota_ok (snd (checkRateLimit (Config (- 1) 10) 0 0 (newClient 0))) \<and>
   \<not> quota_ok (run_events [Check (Config 1 10) 0 0, Check (Config 1 10) 0 0, Record, Record,
                             Check (Config 1 10) 0 1] (newClient 0)) \<and>
   \<not> quota_ok (snd (checkRateLimit (Config (5 / 2) 10) 0 1
                 (run_calls
                    [Request (world (Config (5 / 2) 10) 0 0 (Responds (Inr ()))),
                     Request (world (Config (5 / 2) 10) 0 0 (Responds (Inr ()))),
                     Request (world (Config (5 / 2) 10) 0 0 (Responds (Inr ()))) :: (unit, unit) call]
                    (newClient 0)))) \<and>
   rateLimitInfo (snd (checkRateLimit (Config 30 10000000000000) 0 0 (newClient 0))) =
     Some \<lparr>remaining = 30, resetTime = None, maxCalls = 30, timeWindow = 10000000000000\<rparr> \<and>
   \<not> window_consistent (snd (checkRateLimit (Config 30 10000000000000) 0 0 (newClient 0)))"
  by (simp add: request_defs run_calls_def run_events_def quota_ok_def window_consistent_def
                admitted_def reset_due_def)

section \<open>Objects as dictionaries\<close>

lemma obj_set_keys: "fst ` set (obj_set kvs k v) = insert k (fst ` set kvs)"
  by (induction kvs k v rule: obj_set.induct) (simp_all add: insert_commute)

lemma obj_set_distinct: "distinct (map fst kvs) \<Longrightarrow> distinct (map fst (obj_set kvs k v))"
  by (induction kvs k v rule: obj_set.induct) (auto simp: obj_set_keys)

lemma map_of_obj_set: "map_of (obj_set kvs k v) = (map_of kvs)(k \<mapsto> v)"
  by (induction kvs k v rule: obj_set.induct) (auto simp: fun_eq_iff)

lemma set_own_entries: "set (own_entries kvs) = set kvs"
  by (auto simp: own_entries_def)

lemma length_own_entries: "length (own_entries kvs) = length kvs"
proof -
  have "length (own_entries kvs) =
        length (filter (\<lambda>kv. array_index (fst kv) \<noteq> None) kvs) +
        length (filter (\<lambda>kv. \<not> array_index (fst kv) \<noteq> None) kvs)"
    by (simp add: own_entries_def)
  then show ?thesis
    by (simp only: sum_length_filter_compl)
qed

lemma set_own_keys: "set (own_keys kvs) = fst ` set kvs"
  by (simp add: own_keys_def set_own_entries)

lemma own_entries_pair:
  "own_entries [(k1, x), (k2, y)] =
     (if array_index k2 \<noteq> None \<and>
         (array_index k1 = None \<or> index_of_key (k2, y) < index_of_key (k1, x))
      then [(k2, y), (k1, x)] else [(k1, x), (k2, y)])"
  by (auto simp: own_entries_def index_of_key_def)

section \<open>The translators\<close>

lemma digits_lower:
  "list_all (\<lambda>a. a \<noteq> CHR 0xC3 \<and> a \<noteq> CHR 0xE2 \<and> lower_ascii a = a \<and> a \<noteq> CHR ''-'')
     ''0123456789''"
  by code_simp

lemma is_digit_lower:
  assumes "is_digit a"
  shows "a \<noteq> CHR 0xC3" "a \<noteq> CHR 0xE2" "lower_ascii a = a" "a \<noteq> CHR ''-''"
  using assms digits_lower unfolding is_digit_def list_all_iff by blast+

lemma toLowerCase_digits: "list_all is_digit s \<Longrightarrow> toLowerCase s = s"
  by (induction s rule: toLowerCase.induct) (auto simp: is_digit_lower)

lemma variableMapping_entries:
  "list_all (\<lambda>(k, v). \<not> list_all is_digit k \<and> array_index v = None \<and> v \<notin> set object_prototype)
     variableMapping"
  by code_simp

lemma object_prototype_entries:
  "list_all (\<lambda>n. \<not> list_all is_digit n \<and> inherited_text n \<notin> set object_prototype)
     object_prototype"
  by code_simp

lemma inherited_text_no_index: "array_index (inherited_text n) = None"
  by (simp add: array_index_def inherited_text_def is_digit_def)

lemma mappedKey_cases:
  "(\<exists>k'. (k', mappedKey k) \<in> set variableMapping) \<or>
   (\<exists>n \<in> set object_prototype. mappedKey k = inherited_text n) \<or>
   (mappedKey k = k \<and> k \<notin> set object_prototype)"
  by (auto simp: mappedKey_def js_get_def split: option.splits if_splits dest: map_of_SomeD)

lemma mappedKey_not_inherited: "mappedKey k \<notin> set object_prototype"
  using mappedKey_cases[of k] variableMapping_entries object_prototype_entries
  unfolding list_all_iff by fastforce

lemma mappedKey_index: "array_index (mappedKey k) = Some n \<Longrightarrow> mappedKey k = k"
  using mappedKey_cases[of k] variableMapping_entries inherited_text_no_index
  unfolding list_all_iff by fastforce

lemma mappedKey_of_index:
  assumes "array_index k = Some n"
  shows "mappedKey k = k"
proof -
  have d: "list_all is_digit k"
    using assms by (simp add: array_index_def split: if_splits)
  have 1: "map_of variableMapping k = None"
    using d variableMapping_entries unfolding list_all_iff
    by (fastforce simp: map_of_eq_None_iff)
  have 2: "k \<notin> set object_prototype"
    using d object_prototype_entries unfolding list_all_iff by blast
  show ?thesis
    using 1 2 by (simp add: mappedKey_def js_get_def toLowerCase_digits[OF d])
qed

text \<open>
  C9. When two keys of a selection translate to the same canonical code, the translated
  selection holds one entry for that code, with the values of the key enumerated later;
  the values of the earlier key are gone.
\<close>

theorem colliding_keys_later_wins:
  assumes "mappedKey k1 = mappedKey k2"
  shows "translateCommonVariables [(k1, xs), (k2, ys)] lang = [(mappedKey k1, ys)]"
proof (cases "array_index k2")
  case None
  then have "own_entries [(k1, xs), (k2, ys)] = [(k1, xs), (k2, ys)]"
    by (simp add: own_entries_pair)
  then show ?thesis
    using assms by (simp add: translateCommonVariables_def)
next
  case (Some n)
  have "mappedKey k2 = k2"
    using Some by (rule mappedKey_of_index)
  then have "array_index (mappedKey k1) = Some n"
    using assms Some by simp
  then have "mappedKey k1 = k1"
    by (rule mappedKey_index)
  then have "k1 = k2"
    using assms \<open>mappedKey k2 = k2\<close> by simp
  then have "own_entries [(k1, xs), (k2, ys)] = [(k1, xs), (k2, ys)]"
    by (auto simp: own_entries_pair index_of_key_def)
  then show ?thesis
    using assms by (simp add: translateCommonVariables_def)
qed

text \<open>
  C9, the two examples: \<^verbatim>\<open>county\<close> and \<^verbatim>\<open>municipality\<close> both become \<^verbatim>\<open>Region\<close>, \<^verbatim>\<open>year\<close>
  and \<^verbatim>\<open>month\<close> both become \<^verbatim>\<open>Tid\<close>.
\<close>

theorem colliding_keys_later_wins_witness:
  "''county'' \<noteq> ''municipality'' \<and> mappedKey ''county'' = mappedKey ''municipality'' \<and>
   translateCommonVariables [(''county'', [''01'']), (''municipality'', [''0180''])] ''en'' =
     [(''Region'', [''0180''])] \<and>
   ''year'' \<noteq> ''month'' \<and> mappedKey ''year'' = mappedKey ''month'' \<and>
   translateCommonVariables [(''year'', [''2023'']), (''month'', [''2024M01''])] ''en'' =
     [(''Tid'', [''2024M01''])]"
proof -
  have k: "mappedKey ''county'' = ''Region''" "mappedKey ''municipality'' = ''Region''"
          "mappedKey ''year'' = ''Tid''" "mappedKey ''month'' = ''Tid''"
    by code_simp+
  show ?thesis
    using k
      colliding_keys_later_wins[of "''county''" "''municipality''" "[''01'']" "[''0180'']" "''en''"]
      colliding_keys_later_wins[of "''year''" "''month''" "[''2023'']" "[''2024M01'']" "''en''"]
    by simp
qed

lemma translateCommonValues_strings:
  "translateCommonValues (map Str vs) variableName = Inr (map (translateValue variableName) vs)"
  unfolding translateCommonValues_def by (induction vs) simp_all

lemma fold_exn_total:
  assumes "\<And>x s. f x s = Inr (g x s)"
  shows "fold_exn f xs s = Inr (fold g xs s)"
  by (induction xs arbitrary: s) (simp_all add: assms)

lemma translateSelectionValues_total:
  "translateSelectionValues sel =
     Inr (fold (\<lambda>(varName, values) finalSelection.
                  obj_set finalSelection varName (map (translateValue varName) values))
            (own_entries sel) [])"
  unfolding translateSelectionValues_def
  by (rule fold_exn_total) (simp add: translateCommonValues_strings split: prod.splits)

text \<open>
  C8 fails on the names of the members that the tables inherit from
  \<^verbatim>\<open>Object.prototype\<close>. The key \<^verbatim>\<open>constructor\<close> is in no table, yet the lookup
  \<^verbatim>\<open>variableMapping['constructor']\<close> finds the inherited function, and the key does not
  pass through: it becomes the text of that function; so does \<^verbatim>\<open>toString\<close>. The value
  \<^verbatim>\<open>Constructor\<close> of any variable is translated to the inherited function itself, which
  is no string, and translating the result once more throws.
\<close>

theorem translators_break_on_inherited_names:
  "js_get variableMapping ''constructor'' = Some (Inherited ''constructor'') \<and>
   mappedKey ''constructor'' = ''function Object() { [native code] }'' \<and>
   translateCommonVariables [(''constructor'', [''0180''])] ''en'' =
     [(''function Object() { [native code] }'', [''0180''])] \<and>
   translateCommonVariables [(''toString'', [''0180''])] ''en'' =
     [(''function toString() { [native code] }'', [''0180''])] \<and>
   translateCommonValues [Str ''0180'', Str ''Constructor''] ''Region'' =
     Inr [Str ''0180'', Inherited ''constructor''] \<and>
   translateCommonValues [Str ''0180'', Inherited ''constructor''] ''Region'' =
     Inl toLowerCase_error"
  by code_simp

section \<open>Substrings\<close>

lemma startsWith_prefix: "startsWith s p \<longleftrightarrow> prefix p s"
  by (induction s p rule: startsWith.induct) auto

lemma includes_str_sublist: "includes_str s p \<longleftrightarrow> sublist p s"
proof (induction s)
  case Nil
  then show ?case by simp
next
  case (Cons c cs)
  show ?case
    by (simp add: Cons.IH startsWith_prefix sublist_Cons_right del: startsWith.simps)
qed

lemma includes_str_append: "includes_str (pre @ p @ post) p"
  by (simp add: includes_str_sublist)

lemma join_member: "x \<in> set xs \<Longrightarrow> \<exists>pre post. join sep xs = pre @ x @ post"
proof (induction sep xs rule: join.induct)
  case (1 sep)
  then show ?case by simp
next
  case (2 sep y)
  then have "join sep [y] = [] @ x @ []" by simp
  then show ?case by blast
next
  case (3 sep y z zs)
  show ?case
  proof (cases "x = y")
    case True
    then have "join sep (y # z # zs) = [] @ x @ (sep @ join sep (z # zs))" by simp
    then show ?thesis by blast
  next
    case False
    then obtain pre post where "join sep (z # zs) = pre @ x @ post"
      using 3 by auto
    then have "join sep (y # z # zs) = (y @ sep @ pre) @ x @ post" by simp
    then show ?thesis by blast
  qed
qed

lemma includes_str_join: "x \<in> set xs \<Longrightarrow> includes_str (pre @ join sep xs) x"
proof -
  assume "x \<in> set xs"
  then obtain p q where "join sep xs = p @ x @ q" using join_member by blast
  then have "pre @ join sep xs = (pre @ p) @ x @ q" by simp
  then show ?thesis using includes_str_append by metis
qed

section \<open>The selection validator\<close>

lemma checkValue_result:
  "checkValue tableId varCode avail v es = Inl e \<Longrightarrow> \<not> is_string v \<and> e = startsWith_error"
  "\<not> is_string v \<Longrightarrow> checkValue tableId varCode avail v es = Inl startsWith_error"
  "checkValue tableId varCode avail v es = Inr es' \<Longrightarrow>
     is_string v \<and> prefix (fst es) (fst es') \<and> prefix (snd es) (snd es')"
  by (cases v; auto simp: checkValue_def Let_def split: if_splits)+

lemma fold_checkValue_throws:
  "\<not> list_all is_string vs \<Longrightarrow>
     fold_exn (checkValue tableId varCode avail) vs es = Inl startsWith_error"
proof (induction vs arbitrary: es)
  case Nil
  then show ?case by simp
next
  case (Cons v vs)
  show ?case
  proof (cases "checkValue tableId varCode avail v es")
    case (Inl e)
    then show ?thesis using checkValue_result(1)[OF Inl] by simp
  next
    case (Inr es')
    then have "is_string v" using checkValue_result(3)[OF Inr] by simp
    then have "\<not> list_all is_string vs" using Cons.prems by simp
    then show ?thesis using Cons.IH Inr by simp
  qed
qed

lemma fold_checkValue_returns:
  "list_all is_string vs \<Longrightarrow>
     \<exists>es'. fold_exn (checkValue tableId varCode avail) vs es = Inr es' \<and>
           prefix (fst es) (fst es') \<and> prefix (snd es) (snd es')"
proof (induction vs arbitrary: es)
  case Nil
  then show ?case by simp
next
  case (Cons v vs)
  then have v: "is_string v" and vs: "list_all is_string vs" by simp_all
  obtain es1 where es1: "checkValue tableId varCode avail v es = Inr es1"
    using v checkValue_result(1)[of tableId varCode avail v es]
    by (cases "checkValue tableId varCode avail v es") auto
  obtain es' where "fold_exn (checkValue tableId varCode avail) vs es1 = Inr es'"
      "prefix (fst es1) (fst es')" "prefix (snd es1) (snd es')"
    using Cons.IH[OF vs, of es1] by blast
  then show ?case
    using es1 checkValue_result(3)[OF es1] by (auto intro: prefix_order.trans)
qed

lemma checkVariable_throws:
  assumes "fst entry \<in> set (own_keys dims)" "\<not> list_all is_string (snd entry)"
  shows "checkVariable tableId dims entry es = Inl startsWith_error"
proof -
  have "fst entry \<in> fst ` set dims"
    using assms(1) by (simp add: set_own_keys)
  then obtain varDef where "map_of dims (fst entry) = Some varDef"
    by (cases "map_of dims (fst entry)") (auto simp: map_of_eq_None_iff)
  then show ?thesis
    using assms by (simp add: checkVariable_def Let_def fold_checkValue_throws)
qed

lemma checkVariable_returns:
  assumes "fst entry \<in> set (own_keys dims) \<longrightarrow> list_all is_string (snd entry)"
  shows "\<exists>es'. checkVariable tableId dims entry es = Inr es' \<and>
               prefix (fst es) (fst es') \<and> prefix (snd es) (snd es')"
proof (cases "fst entry \<in> set (own_keys dims)")
  case False
  then show ?thesis by (simp add: checkVariable_def Let_def)
next
  case True
  then have s: "list_all is_string (snd entry)" using assms by simp
  show ?thesis
  proof (cases "map_of dims (fst entry)")
    case None
    then show ?thesis using True by (simp add: checkVariable_def Let_def)
  next
    case (Some varDef)
    then show ?thesis
      using True fold_checkValue_returns[OF s, of tableId "fst entry" "own_keys (cat_index varDef)" es]
      by (simp add: checkVariable_def Let_def)
  qed
qed

lemma fold_checkVariable_throws:
  "\<not> values_checkable dims entries \<Longrightarrow>
     fold_exn (checkVariable tableId dims) entries es = Inl startsWith_error"
proof (induction entries arbitrary: es)
  case Nil
  then show ?case by (simp add: values_checkable_def)
next
  case (Cons x xs)
  show ?case
  proof (cases "fst x \<in> set (own_keys dims) \<and> \<not> list_all is_string (snd x)")
    case True
    then show ?thesis using checkVariable_throws[of x dims tableId es] by simp
  next
    case False
    then obtain es' where es': "checkVariable tableId dims x es = Inr es'"
      using checkVariable_returns[of x dims tableId es] by blast
    have "\<not> values_checkable dims xs"
      using Cons.prems False by (auto simp: values_checkable_def split: prod.splits)
    then show ?thesis using Cons.IH es' by simp
  qed
qed

lemma fold_checkVariable_returns:
  "values_checkable dims entries \<Longrightarrow>
     \<exists>es'. fold_exn (checkVariable tableId dims) entries es = Inr es' \<and>
           prefix (fst es) (fst es') \<and> prefix (snd es) (snd es')"
proof (induction entries arbitrary: es)
  case Nil
  then show ?case by simp
next
  case (Cons x xs)
  have x: "fst x \<in> set (own_keys dims) \<longrightarrow> list_all is_string (snd x)"
    and xs: "values_checkable dims xs"
    using Cons.prems by (auto simp: values_checkable_def split: prod.splits)
  obtain es1 where es1: "checkVariable tableId dims x es = Inr es1"
      "prefix (fst es) (fst es1)" "prefix (snd es) (snd es1)"
    using checkVariable_returns[OF x, of tableId es] by blast
  obtain es' where "fold_exn (checkVariable tableId dims) xs es1 = Inr es'"
      "prefix (fst es1) (fst es')" "prefix (snd es1) (snd es')"
    using Cons.IH[OF xs, of es1] by blast
  then show ?case
    using es1 by (auto intro: prefix_order.trans)
qed

lemma validateSelection_try_failed:
  assumes "getTableMetadata w tableId lang c = (Inl e, c1)"
  shows "validateSelection_try w tableId sel lang c = (Inl e, c1)"
  using assms translateSelectionValues_total[of "translateCommonVariables sel lang"]
  by (simp add: validateSelection_try_def)

lemma validateSelection_try_throws:
  assumes "getTableMetadata w tableId lang c = (Inr metadata, c1)"
    and "ds_dimension metadata = Some dims"
    and "translateSelectionValues (translateCommonVariables sel lang) = Inr translated"
    and "\<not> values_checkable dims (own_entries translated)"
  shows "validateSelection_try w tableId sel lang c = (Inl startsWith_error, c1)"
  using assms fold_checkVariable_throws[OF assms(4)]
  by (simp add: validateSelection_try_def Let_def)

lemma validateSelection_try_returns:
  assumes "getTableMetadata w tableId lang c = (Inr metadata, c1)"
    and "ds_dimension metadata = Some dims"
    and "translateSelectionValues (translateCommonVariables sel lang) = Inr translated"
    and "values_checkable dims (own_entries translated)"
  shows "\<exists>es. fold_exn (checkVariable tableId dims) (own_entries translated)
                (checkMissing (missingVariables (own_keys dims) (own_keys translated)) ([], []))
                = Inr es \<and>
              prefix (fst (checkMissing (missingVariables (own_keys dims) (own_keys translated))
                             ([], []))) (fst es) \<and>
              prefix (snd (checkMissing (missingVariables (own_keys dims) (own_keys translated))
                             ([], []))) (snd es) \<and>
              validateSelection_try w tableId sel lang c =
                (Inr \<lparr>isValid = (length (fst es) = 0), errors = fst es, suggestions = snd es,
                      translatedSelection = Some translated\<rparr>, c1)"
proof -
  obtain es where es:
    "fold_exn (checkVariable tableId dims) (own_entries translated)
       (checkMissing (missingVariables (own_keys dims) (own_keys translated)) ([], [])) = Inr es"
    "prefix (fst (checkMissing (missingVariables (own_keys dims) (own_keys translated)) ([], [])))
       (fst es)"
    "prefix (snd (checkMissing (missingVariables (own_keys dims) (own_keys translated)) ([], [])))
       (snd es)"
    using fold_checkVariable_returns[OF assms(4)] by blast
  show ?thesis
    using assms(1,2,3) es by (simp add: validateSelection_try_def Let_def)
qed

lemma checkMissing_nonempty:
  assumes "m \<noteq> []"
  shows "\<exists>s2. checkMissing m ([], []) =
           ([''Missing mandatory variables: '' @ join '', '' m],
            [''SCB tables require all dimensions to be specified. Add these variables to your selection: ''
               @ join '', '' m, s2]) \<and>
           includes_str s2 wildcard_hint"
proof -
  have "includes_str (wildcard_hint @ rest) wildcard_hint" for rest
    using includes_str_append[of "[]" wildcard_hint rest] by simp
  then show ?thesis
    using assms by (simp add: checkMissing_def) (simp add: wildcard_hint_def)
qed

text \<open>
  What the validator does about a missing dimension when the loop over the values runs
  to its end: the first error lists the missing variables, the first suggestion asks to
  add them and the second advises the wildcard.
\<close>

lemma missing_dimension_reported_when_checked:
  assumes "getTableMetadata w tableId lang c = (Inr metadata, c')"
    and "ds_dimension metadata = Some dims"
    and "translateSelectionValues (translateCommonVariables sel lang) = Inr translated"
    and "values_checkable dims (own_entries translated)"
    and "d \<in> fst ` set dims"
    and "d \<notin> fst ` set translated"
  shows "\<not> isValid (fst (validateSelection w tableId sel lang c)) \<and>
         d \<in> set (missingVariables (own_keys dims) (own_keys translated)) \<and>
         prefix [''Missing mandatory variables: '' @ join '', ''
                   (missingVariables (own_keys dims) (own_keys translated))]
           (errors (fst (validateSelection w tableId sel lang c))) \<and>
         (\<exists>e \<in> set (errors (fst (validateSelection w tableId sel lang c))). includes_str e d) \<and>
         (\<exists>s1 s2 rest. suggestions (fst (validateSelection w tableId sel lang c)) = s1 # s2 # rest \<and>
            includes_str s1 d \<and> includes_str s2 wildcard_hint)"
proof -
  let ?m = "missingVariables (own_keys dims) (own_keys translated)"
  let ?e1 = "''Missing mandatory variables: '' @ join '', '' ?m"
  let ?s1 = "''SCB tables require all dimensions to be specified. Add these variables to your selection: '' @ join '', '' ?m"
  let ?start = "checkMissing ?m ([], [])"
  have dm: "d \<in> set ?m"
    using assms(5,6) by (auto simp: missingVariables_def set_own_keys)
  then have "?m \<noteq> []" by auto
  then obtain s2 where start: "?start = ([?e1], [?s1, s2])" and i3: "includes_str s2 wildcard_hint"
    using checkMissing_nonempty[of ?m] by blast
  obtain es where pe: "prefix (fst ?start) (fst es)" and ps: "prefix (snd ?start) (snd es)"
    and tr: "validateSelection_try w tableId sel lang c =
                (Inr \<lparr>isValid = (length (fst es) = 0), errors = fst es, suggestions = snd es,
                      translatedSelection = Some translated\<rparr>, c')"
    using validateSelection_try_returns[OF assms(1,2,3,4)] by blast
  have res: "validateSelection w tableId sel lang c =
      (\<lparr>isValid = (length (fst es) = 0), errors = fst es, suggestions = snd es,
        translatedSelection = Some translated\<rparr>, c')"
    using tr by (simp add: validateSelection_def)
  from pe obtain er where er: "fst es = ?e1 # er"
    unfolding start by (auto simp: prefix_def)
  from ps obtain sr where sr: "snd es = ?s1 # s2 # sr"
    unfolding start by (auto simp: prefix_def)
  have i1: "includes_str ?e1 d" and i2: "includes_str ?s1 d"
    using dm by (rule includes_str_join)+
  have a: "\<not> isValid (fst (validateSelection w tableId sel lang c))"
    unfolding res by (simp add: er)
  have b: "prefix [?e1] (errors (fst (validateSelection w tableId sel lang c)))"
    unfolding res by (simp add: er)
  have c: "\<exists>e \<in> set (errors (fst (validateSelection w tableId sel lang c))). includes_str e d"
    unfolding res using i1 by (simp add: er)
  have d: "\<exists>s1 s2 rest. suggestions (fst (validateSelection w tableId sel lang c)) = s1 # s2 # rest \<and>
            includes_str s1 d \<and> includes_str s2 wildcard_hint"
    unfolding res using i2 i3 sr by simp
  show ?thesis
    using a dm b c d by blast
qed

lemma example_metadata:
  "getTableMetadata (example_world (Responds (Inr (example_dataset None)))) ''TAB638'' ''en''
     (newClient 0) =
     (Inr (example_dataset None),
      \<lparr>rateLimitInfo =
         Some \<lparr>remaining = 29, resetTime = Some 10000, maxCalls = 30, timeWindow = 10\<rparr>,
       requestCount = 1, windowStartTime = 0\<rparr>)"
  by (simp add: getTableMetadata_def example_world_def request_defs)

lemma example_fetch_failed:
  "getTableMetadata (example_world (FetchRejects ''fetch failed'') :: int Dataset io) ''TAB638'' ''en''
     (newClient 0) =
     (Inl (Error ''fetch failed''),
      \<lparr>rateLimitInfo =
         Some \<lparr>remaining = 30, resetTime = Some 10000, maxCalls = 30, timeWindow = 10\<rparr>,
       requestCount = 0, windowStartTime = 0\<rparr>)"
  by (simp add: getTableMetadata_def example_world_def request_defs)

text \<open>
  C3 fails when a value of the selection, in lower case, is the name of a member
  inherited from \<^verbatim>\<open>Object.prototype\<close>. The selection \<^verbatim>\<open>{"region": ["constructor"]}\<close>
  against the table with \<^verbatim>\<open>Region\<close> and \<^verbatim>\<open>Tid\<close> misses \<^verbatim>\<open>Tid\<close>; the translated value is
  the inherited function, the loop over the values throws on it after the error about
  \<^verbatim>\<open>Tid\<close> was collected, and the result of the \<^verbatim>\<open>catch\<close> names neither \<^verbatim>\<open>Tid\<close> nor the
  wildcard. The selection \<^verbatim>\<open>{"region": ["9999"]}\<close> gets the report.
\<close>

theorem missing_dimension_report_lost:
  "translateSelectionValues (translateCommonVariables [(''region'', [''constructor''])] ''en'') =
     Inr [(''Region'', [Inherited ''constructor''])] \<and>
   missingVariables (own_keys example_dimensions) (own_keys [(''Region'', [Inherited ''constructor''])]) =
     [''Tid''] \<and>
   fst (validateSelection (example_world (Responds (Inr (example_dataset None)))) ''TAB638''
          [(''region'', [''constructor''])] ''en'' (newClient 0)) =
     \<lparr>isValid = False,
      errors = [''Validation failed: value.startsWith is not a function''],
      suggestions = [''Try checking if the table ID is correct with scb_get_table_info''],
      translatedSelection = None\<rparr> \<and>
   hd (errors (fst (validateSelection (example_world (Responds (Inr (example_dataset None))))
                      ''TAB638'' [(''region'', [''9999''])] ''en'' (newClient 0)))) =
     ''Missing mandatory variables: Tid''"
proof -
  have t: "translateSelectionValues (translateCommonVariables [(''region'', [''constructor''])] ''en'') =
             Inr [(''Region'', [Inherited ''constructor''])]"
    by code_simp
  have m: "missingVariables (own_keys example_dimensions)
             (own_keys [(''Region'', [Inherited ''constructor''])]) = [''Tid'']"
    by code_simp
  have d: "ds_dimension (example_dataset None) = Some example_dimensions"
    by (simp add: example_dataset_def)
  have n: "\<not> values_checkable example_dimensions
               (own_entries [(''Region'', [Inherited ''constructor''])])"
    by code_simp
  have v: "fst (validateSelection (example_world (Responds (Inr (example_dataset None)))) ''TAB638''
          [(''region'', [''constructor''])] ''en'' (newClient 0)) =
     \<lparr>isValid = False,
      errors = [''Validation failed: value.startsWith is not a function''],
      suggestions = [''Try checking if the table ID is correct with scb_get_table_info''],
      translatedSelection = None\<rparr>"
    using validateSelection_try_throws[OF example_metadata d t n]
    by (simp add: validateSelection_def startsWith_error_def)
  have t2: "translateSelectionValues (translateCommonVariables [(''region'', [''9999''])] ''en'') =
             Inr [(''Region'', [Str ''9999''])]"
    by code_simp
  have c2: "values_checkable example_dimensions (own_entries [(''Region'', [Str ''9999''])])"
    by code_simp
  have m2: "missingVariables (own_keys example_dimensions) (own_keys [(''Region'', [Str ''9999''])]) =
             [''Tid'']"
    by code_simp
  have i: "''Tid'' \<in> fst ` set example_dimensions"
    by (simp add: example_dimensions_def)
  have j: "''Tid'' \<notin> fst ` set [(''Region'', [Str ''9999''])]"
    by simp
  have "prefix [''Missing mandatory variables: '' @ join '', ''
                  (missingVariables (own_keys example_dimensions)
                     (own_keys [(''Region'', [Str ''9999''])]))]
          (errors (fst (validateSelection (example_world (Responds (Inr (example_dataset None))))
                      ''TAB638'' [(''region'', [''9999''])] ''en'' (newClient 0))))"
    using missing_dimension_reported_when_checked[OF example_metadata d t2 c2 i j] by blast
  then have h: "hd (errors (fst (validateSelection (example_world (Responds (Inr (example_dataset None))))
                      ''TAB638'' [(''region'', [''9999''])] ''en'' (newClient 0)))) =
     ''Missing mandatory variables: Tid''"
    unfolding m2 by (auto simp: prefix_def)
  show ?thesis
    using t m v h by simp
qed

text \<open>
  C4. \<^verbatim>\<open>validateSelection\<close> returns a result in every case. Whatever the \<^verbatim>\<open>try\<close> block
  throws is turned into a result with \<open>isValid = False\<close>, the one error
  \<^verbatim>\<open>Validation failed:\<close> followed by the message, and one suggestion; a result the block
  returns is passed on. The block throws what the metadata request throws (a rate limit
  that is used up, a fetch that rejects, a response that cannot be used), and it throws
  a \<^verbatim>\<open>TypeError\<close> while it processes the selection when a value of a variable that the
  table has is no string; it throws nothing else.
\<close>

theorem validation_never_throws:
  "(validateSelection_try w tableId sel lang c = (Inl e, c') \<longrightarrow>
      validateSelection w tableId sel lang c =
        (\<lparr>isValid = False,
          errors = [''Validation failed: '' @ message (io_print w) e],
          suggestions = [''Try checking if the table ID is correct with scb_get_table_info''],
          translatedSelection = None\<rparr>, c') \<and>
      (getTableMetadata w tableId lang c = (Inl e, c') \<or>
       e = startsWith_error \<and>
       (\<exists>metadata dims translated.
          getTableMetadata w tableId lang c = (Inr metadata, c') \<and>
          ds_dimension metadata = Some dims \<and>
          translateSelectionValues (translateCommonVariables sel lang) = Inr translated \<and>
          \<not> values_checkable dims (own_entries translated)))) \<and>
   (\<forall>res c2. validateSelection_try w tableId sel lang c = (Inr res, c2) \<longrightarrow>
      validateSelection w tableId sel lang c = (res, c2)) \<and>
   (getTableMetadata w tableId lang c = (Inl e, c') \<longrightarrow>
      validateSelection_try w tableId sel lang c = (Inl e, c')) \<and>
   (getTableMetadata w tableId lang c = (Inr metadata, c') \<and>
    ds_dimension metadata = Some dims \<and>
    translateSelectionValues (translateCommonVariables sel lang) = Inr translated \<and>
    \<not> values_checkable dims (own_entries translated) \<longrightarrow>
      validateSelection_try w tableId sel lang c = (Inl startsWith_error, c'))"
proof -
  have 1: "validateSelection_try w tableId sel lang c = (Inl e, c') \<longrightarrow>
      validateSelection w tableId sel lang c =
        (\<lparr>isValid = False,
          errors = [''Validation failed: '' @ message (io_print w) e],
          suggestions = [''Try checking if the table ID is correct with scb_get_table_info''],
          translatedSelection = None\<rparr>, c')"
    by (simp add: validateSelection_def)
  have 2: "\<forall>res c2. validateSelection_try w tableId sel lang c = (Inr res, c2) \<longrightarrow>
      validateSelection w tableId sel lang c = (res, c2)"
    by (simp add: validateSelection_def)
  have 3: "getTableMetadata w tableId lang c = (Inl e, c') \<longrightarrow>
      validateSelection_try w tableId sel lang c = (Inl e, c')"
    using validateSelection_try_failed by blast
  have 4: "getTableMetadata w tableId lang c = (Inr metadata, c') \<and>
    ds_dimension metadata = Some dims \<and>
    translateSelectionValues (translateCommonVariables sel lang) = Inr translated \<and>
    \<not> values_checkable dims (own_entries translated) \<longrightarrow>
      validateSelection_try w tableId sel lang c = (Inl startsWith_error, c')"
    using validateSelection_try_throws by blast
  have 5: "getTableMetadata w tableId lang c = (Inl e, c') \<or>
       e = startsWith_error \<and>
       (\<exists>metadata dims translated.
          getTableMetadata w tableId lang c = (Inr metadata, c') \<and>
          ds_dimension metadata = Some dims \<and>
          translateSelectionValues (translateCommonVariables sel lang) = Inr translated \<and>
          \<not> values_checkable dims (own_entries translated))"
    if tr: "validateSelection_try w tableId sel lang c = (Inl e, c')"
  proof -
    obtain translated where t: "translateSelectionValues (translateCommonVariables sel lang) = Inr translated"
      using translateSelectionValues_total by blast
    obtain r c1 where g: "getTableMetadata w tableId lang c = (r, c1)"
      by force
    show ?thesis
    proof (cases r)
      case (Inl e')
      then show ?thesis
        using tr validateSelection_try_failed[of w tableId lang c e' c1 sel] g by simp
    next
      case (Inr metadata)
      show ?thesis
      proof (cases "ds_dimension metadata")
        case None
        then show ?thesis
          using tr g Inr t by (simp add: validateSelection_try_def)
      next
        case (Some dims)
        show ?thesis
        proof (cases "values_checkable dims (own_entries translated)")
          case True
          then show ?thesis
            using validateSelection_try_returns[of w tableId lang c metadata c1 dims sel translated]
                  tr g Inr Some t by auto
        next
          case False
          then show ?thesis
            using validateSelection_try_throws[of w tableId lang c metadata c1 dims sel translated]
                  tr g Inr Some t by auto
        qed
      qed
    qed
  qed
  show ?thesis
    using 1 2 3 4 5 by blast
qed

text \<open>
  C4, three instances: a capacity of 0, so that the admission check of the metadata
  request throws; a fetch that rejects; and a selection whose value \<^verbatim>\<open>__PROTO__\<close> is
  translated to \<^verbatim>\<open>Object.prototype\<close>, on which the loop over the values throws.
\<close>

theorem validation_never_throws_witness:
  "getTableMetadata (world (Config 0 10) 0 0 (Responds (Inr (example_dataset None)))) ''TAB638'' ''en''
     (newClient 0) =
     (Inl (RateLimitExceeded (Some 10000) 0 0),
      \<lparr>rateLimitInfo = Some \<lparr>remaining = 0, resetTime = Some 10000, maxCalls = 0, timeWindow = 10\<rparr>,
       requestCount = 0, windowStartTime = 0\<rparr>) \<and>
   validateSelection (world (Config 0 10) 0 0 (Responds (Inr (example_dataset None))))
     ''TAB638'' [(''region'', [''9999''])] ''en'' (newClient 0) =
     (\<lparr>isValid = False,
       errors = [''Validation failed: Rate limit exceeded. Try again in 10 seconds. Current usage: 0/0''],
       suggestions = [''Try checking if the table ID is correct with scb_get_table_info''],
       translatedSelection = None\<rparr>,
      \<lparr>rateLimitInfo = Some \<lparr>remaining = 0, resetTime = Some 10000, maxCalls = 0, timeWindow = 10\<rparr>,
       requestCount = 0, windowStartTime = 0\<rparr>) \<and>
   getTableMetadata (example_world (FetchRejects ''fetch failed'') :: int Dataset io) ''TAB638'' ''en''
     (newClient 0) =
     (Inl (Error ''fetch failed''),
      \<lparr>rateLimitInfo = Some \<lparr>remaining = 30, resetTime = Some 10000, maxCalls = 30, timeWindow = 10\<rparr>,
       requestCount = 0, windowStartTime = 0\<rparr>) \<and>
   validateSelection (example_world (FetchRejects ''fetch failed'') :: int Dataset io) ''TAB638''
     [(''region'', [''9999''])] ''en'' (newClient 0) =
     (\<lparr>isValid = False,
       errors = [''Validation failed: fetch failed''],
       suggestions = [''Try checking if the table ID is correct with scb_get_table_info''],
       translatedSelection = None\<rparr>,
      \<lparr>rateLimitInfo = Some \<lparr>remaining = 30, resetTime = Some 10000, maxCalls = 30, timeWindow = 10\<rparr>,
       requestCount = 0, windowStartTime = 0\<rparr>) \<and>
   translateSelectionValues
     (translateCommonVariables [(''tid'', [''2024'']), (''region'', [''0180'', ''__PROTO__''])] ''en'') =
     Inr [(''Tid'', [Str ''2024'']), (''Region'', [Str ''0180'', Inherited ''__proto__''])] \<and>
   \<not> values_checkable example_dimensions
        (own_entries [(''Tid'', [Str ''2024'']), (''Region'', [Str ''0180'', Inherited ''__proto__''])]) \<and>
   validateSelection (example_world (Responds (Inr (example_dataset None)))) ''TAB638''
     [(''tid'', [''2024'']), (''region'', [''0180'', ''__PROTO__''])] ''en'' (newClient 0) =
     (\<lparr>isValid = False,
       errors = [''Validation failed: value.startsWith is not a function''],
       suggestions = [''Try checking if the table ID is correct with scb_get_table_info''],
       translatedSelection = None\<rparr>,
      \<lparr>rateLimitInfo = Some \<lparr>remaining = 29, resetTime = Some 10000, maxCalls = 30, timeWindow = 10\<rparr>,
       requestCount = 1, windowStartTime = 0\<rparr>)"
proof -
  let ?w = "world (Config 0 10) 0 0 (Responds (Inr (example_dataset None)))"
  let ?c = "\<lparr>rateLimitInfo = Some \<lparr>remaining = 0, resetTime = Some 10000, maxCalls = 0, timeWindow = 10\<rparr>,
             requestCount = 0, windowStartTime = 0\<rparr>"
  let ?d = "\<lparr>rateLimitInfo = Some \<lparr>remaining = 30, resetTime = Some 10000, maxCalls = 30, timeWindow = 10\<rparr>,
             requestCount = 0, windowStartTime = 0\<rparr>"
  let ?sel = "[(''tid'', [''2024'']), (''region'', [''0180'', ''__PROTO__''])]"
  let ?t = "[(''Tid'', [Str ''2024'']), (''Region'', [Str ''0180'', Inherited ''__proto__''])]"
  have m: "message (io_print ?w) (RateLimitExceeded (Some 10000) 0 0) =
             ''Rate limit exceeded. Try again in 10 seconds. Current usage: 0/0''"
    by code_simp
  have g1: "getTableMetadata ?w ''TAB638'' ''en'' (newClient 0) =
              (Inl (RateLimitExceeded (Some 10000) 0 0), ?c)"
    by (simp add: getTableMetadata_def request_defs)
  have d: "ds_dimension (example_dataset None) = Some example_dimensions"
    by (simp add: example_dataset_def)
  have t: "translateSelectionValues (translateCommonVariables ?sel ''en'') = Inr ?t"
    by code_simp
  have n: "\<not> values_checkable example_dimensions (own_entries ?t)"
    by code_simp
  have t1: "validateSelection_try ?w ''TAB638'' [(''region'', [''9999''])] ''en'' (newClient 0) =
              (Inl (RateLimitExceeded (Some 10000) 0 0), ?c)"
    using validation_never_throws
            [where w = ?w and tableId = "''TAB638''" and sel = "[(''region'', [''9999''])]"
               and lang = "''en''" and c = "newClient 0" and c' = ?c
               and e = "RateLimitExceeded (Some 10000) 0 0"]
          g1
    by blast
  have t2: "validateSelection_try (example_world (FetchRejects ''fetch failed'') :: int Dataset io)
              ''TAB638'' [(''region'', [''9999''])] ''en'' (newClient 0) =
              (Inl (Error ''fetch failed''), ?d)"
    using validation_never_throws
            [where w = "example_world (FetchRejects ''fetch failed'') :: int Dataset io"
               and tableId = "''TAB638''"
               and sel = "[(''region'', [''9999''])]"
               and lang = "''en''" and c = "newClient 0" and c' = ?d
               and e = "Error ''fetch failed''"]
          example_fetch_failed
    by blast
  have t3: "validateSelection_try (example_world (Responds (Inr (example_dataset None)))) ''TAB638''
              ?sel ''en'' (newClient 0) =
              (Inl startsWith_error,
               \<lparr>rateLimitInfo =
                  Some \<lparr>remaining = 29, resetTime = Some 10000, maxCalls = 30, timeWindow = 10\<rparr>,
                requestCount = 1, windowStartTime = 0\<rparr>)"
    using validation_never_throws
            [where w = "example_world (Responds (Inr (example_dataset None)))"
               and tableId = "''TAB638''" and sel = ?sel
               and lang = "''en''" and c = "newClient 0" and metadata = "example_dataset None"
               and dims = example_dimensions and translated = ?t
               and c' = "\<lparr>rateLimitInfo =
                  Some \<lparr>remaining = 29, resetTime = Some 10000, maxCalls = 30, timeWindow = 10\<rparr>,
                requestCount = 1, windowStartTime = 0\<rparr>"]
          example_metadata d t n
    by blast
  have r1: "validateSelection ?w ''TAB638'' [(''region'', [''9999''])] ''en'' (newClient 0) =
     (\<lparr>isValid = False,
       errors = [''Validation failed: '' @ message (io_print ?w) (RateLimitExceeded (Some 10000) 0 0)],
       suggestions = [''Try checking if the table ID is correct with scb_get_table_info''],
       translatedSelection = None\<rparr>, ?c)"
    using validation_never_throws
            [where w = ?w and tableId = "''TAB638''" and sel = "[(''region'', [''9999''])]"
               and lang = "''en''" and c = "newClient 0" and c' = ?c
               and e = "RateLimitExceeded (Some 10000) 0 0"]
          t1
    by blast
  have r2: "validateSelection (example_world (FetchRejects ''fetch failed'') :: int Dataset io)
     ''TAB638'' [(''region'', [''9999''])] ''en'' (newClient 0) =
     (\<lparr>isValid = False,
       errors = [''Validation failed: '' @
                 message (io_print (example_world (FetchRejects ''fetch failed'') :: int Dataset io))
                   (Error ''fetch failed'')],
       suggestions = [''Try checking if the table ID is correct with scb_get_table_info''],
       translatedSelection = None\<rparr>, ?d)"
    using validation_never_throws
            [where w = "example_world (FetchRejects ''fetch failed'') :: int Dataset io"
               and tableId = "''TAB638''"
               and sel = "[(''region'', [''9999''])]"
               and lang = "''en''" and c = "newClient 0" and c' = ?d
               and e = "Error ''fetch failed''"]
          t2
    by blast
  have r3: "validateSelection (example_world (Responds (Inr (example_dataset None)))) ''TAB638''
     ?sel ''en'' (newClient 0) =
     (\<lparr>isValid = False,
       errors = [''Validation failed: '' @
                 message (io_print (example_world (Responds (Inr (example_dataset None)))))
                   startsWith_error],
       suggestions = [''Try checking if the table ID is correct with scb_get_table_info''],
       translatedSelection = None\<rparr>,
      \<lparr>rateLimitInfo = Some \<lparr>remaining = 29, resetTime = Some 10000, maxCalls = 30, timeWindow = 10\<rparr>,
       requestCount = 1, windowStartTime = 0\<rparr>)"
    using validation_never_throws
            [where w = "example_world (Responds (Inr (example_dataset None)))"
               and tableId = "''TAB638''" and sel = ?sel
               and lang = "''en''" and c = "newClient 0" and e = startsWith_error
               and c' = "\<lparr>rateLimitInfo =
                  Some \<lparr>remaining = 29, resetTime = Some 10000, maxCalls = 30, timeWindow = 10\<rparr>,
                requestCount = 1, windowStartTime = 0\<rparr>"]
          t3
    by blast
  show ?thesis
    using g1 example_fetch_failed t n r1[unfolded m] r2 r3
    by (simp add: startsWith_error_def)
qed

text \<open>
  C6, as the code has it. The result has no translated selection when the \<^verbatim>\<open>try\<close> block
  throws, a failed metadata request included. It holds the translated selection when
  the block runs to its last \<^verbatim>\<open>return\<close>: the metadata request has delivered a table
  with dimensions and every value that the loop looks at is a string; the selection may
  be valid or not.
\<close>

theorem translated_selection_returned:
  "(validateSelection_try w tableId sel lang c = (Inl e, c') \<longrightarrow>
      translatedSelection (fst (validateSelection w tableId sel lang c)) = None) \<and>
   (getTableMetadata w tableId lang c = (Inl e, c') \<longrightarrow>
      translatedSelection (fst (validateSelection w tableId sel lang c)) = None) \<and>
   (getTableMetadata w tableId lang c = (Inr metadata, c') \<and>
    ds_dimension metadata = Some dims \<and>
    translateSelectionValues (translateCommonVariables sel lang) = Inr translated \<and>
    values_checkable dims (own_entries translated) \<longrightarrow>
      translatedSelection (fst (validateSelection w tableId sel lang c)) = Some translated)"
proof -
  have 1: "validateSelection_try w tableId sel lang c = (Inl e, c') \<longrightarrow>
      translatedSelection (fst (validateSelection w tableId sel lang c)) = None"
    by (simp add: validateSelection_def)
  have 2: "getTableMetadata w tableId lang c = (Inl e, c') \<longrightarrow>
      translatedSelection (fst (validateSelection w tableId sel lang c)) = None"
    using validateSelection_try_failed[of w tableId lang c e c' sel]
    by (auto simp: validateSelection_def)
  have 3: "getTableMetadata w tableId lang c = (Inr metadata, c') \<and>
    ds_dimension metadata = Some dims \<and>
    translateSelectionValues (translateCommonVariables sel lang) = Inr translated \<and>
    values_checkable dims (own_entries translated) \<longrightarrow>
      translatedSelection (fst (validateSelection w tableId sel lang c)) = Some translated"
    using validateSelection_try_returns[of w tableId lang c metadata c' dims sel translated]
    by (auto simp: validateSelection_def)
  show ?thesis
    using 1 2 3 by blast
qed

text \<open>
  C6, four instances: a valid selection, an invalid one (both with the field), a
  metadata request that fails, and a \<^verbatim>\<open>TypeError\<close> in the loop (both without it).
\<close>

theorem translated_selection_returned_witness:
  "translateSelectionValues
     (translateCommonVariables [(''region'', [''0180'']), (''year'', [''*''])] ''en'') =
     Inr [(''Region'', [Str ''0180'']), (''Tid'', [Str ''*''])] \<and>
   values_checkable example_dimensions
     (own_entries [(''Region'', [Str ''0180'']), (''Tid'', [Str ''*''])]) \<and>
   isValid (fst (validateSelection (example_world (Responds (Inr (example_dataset None))))
                   ''TAB638'' [(''region'', [''0180'']), (''year'', [''*''])] ''en'' (newClient 0))) \<and>
   translatedSelection
     (fst (validateSelection (example_world (Responds (Inr (example_dataset None))))
             ''TAB638'' [(''region'', [''0180'']), (''year'', [''*''])] ''en'' (newClient 0))) =
     Some [(''Region'', [Str ''0180'']), (''Tid'', [Str ''*''])] \<and>
   \<not> isValid (fst (validateSelection (example_world (Responds (Inr (example_dataset None))))
                     ''TAB638'' [(''region'', [''9999''])] ''en'' (newClient 0))) \<and>
   translatedSelection
     (fst (validateSelection (example_world (Responds (Inr (example_dataset None))))
             ''TAB638'' [(''region'', [''9999''])] ''en'' (newClient 0))) =
     Some [(''Region'', [Str ''9999''])] \<and>
   translatedSelection
     (fst (validateSelection (example_world (FetchRejects ''fetch failed'') :: int Dataset io)
             ''TAB638'' [(''region'', [''9999''])] ''en'' (newClient 0))) = None \<and>
   validateSelection_try (example_world (Responds (Inr (example_dataset None)))) ''TAB638''
     [(''region'', [''constructor''])] ''en'' (newClient 0) =
     (Inl startsWith_error,
      \<lparr>rateLimitInfo = Some \<lparr>remaining = 29, resetTime = Some 10000, maxCalls = 30, timeWindow = 10\<rparr>,
       requestCount = 1, windowStartTime = 0\<rparr>) \<and>
   translatedSelection
     (fst (validateSelection (example_world (Responds (Inr (example_dataset None))))
             ''TAB638'' [(''region'', [''constructor''])] ''en'' (newClient 0))) = None"
proof -
  let ?w = "example_world (Responds (Inr (example_dataset None)))"
  let ?c = "\<lparr>rateLimitInfo =
               Some \<lparr>remaining = 29, resetTime = Some 10000, maxCalls = 30, timeWindow = 10\<rparr>,
             requestCount = 1, windowStartTime = 0\<rparr>"
  let ?d = "\<lparr>rateLimitInfo =
               Some \<lparr>remaining = 30, resetTime = Some 10000, maxCalls = 30, timeWindow = 10\<rparr>,
             requestCount = 0, windowStartTime = 0\<rparr>"
  have d: "ds_dimension (example_dataset None) = Some example_dimensions"
    by (simp add: example_dataset_def)
  have t: "translateSelectionValues
             (translateCommonVariables [(''region'', [''0180'']), (''year'', [''*''])] ''en'') =
             Inr [(''Region'', [Str ''0180'']), (''Tid'', [Str ''*''])]"
          "translateSelectionValues (translateCommonVariables [(''region'', [''9999''])] ''en'') =
             Inr [(''Region'', [Str ''9999''])]"
          "translateSelectionValues (translateCommonVariables [(''region'', [''constructor''])] ''en'') =
             Inr [(''Region'', [Inherited ''constructor''])]"
    by code_simp+
  have k: "values_checkable example_dimensions
             (own_entries [(''Region'', [Str ''0180'']), (''Tid'', [Str ''*''])])"
          "values_checkable example_dimensions (own_entries [(''Region'', [Str ''9999''])])"
          "\<not> values_checkable example_dimensions (own_entries [(''Region'', [Inherited ''constructor''])])"
    by code_simp+
  have f: "fold_exn (checkVariable ''TAB638'' example_dimensions)
             (own_entries [(''Region'', [Str ''0180'']), (''Tid'', [Str ''*''])])
             (checkMissing
                (missingVariables (own_keys example_dimensions)
                   (own_keys [(''Region'', [Str ''0180'']), (''Tid'', [Str ''*''])]))
                ([], [])) = Inr ([], [])"
    by code_simp
  have g: "case fold_exn (checkVariable ''TAB638'' example_dimensions)
                  (own_entries [(''Region'', [Str ''9999''])])
                  (checkMissing
                     (missingVariables (own_keys example_dimensions)
                        (own_keys [(''Region'', [Str ''9999''])]))
                     ([], [])) of
             Inl e \<Rightarrow> False
           | Inr es \<Rightarrow> fst es \<noteq> []"
    by code_simp
  have v: "isValid (fst (validateSelection ?w ''TAB638''
                           [(''region'', [''0180'']), (''year'', [''*''])] ''en'' (newClient 0)))"
          "\<not> isValid (fst (validateSelection ?w ''TAB638'' [(''region'', [''9999''])] ''en''
                             (newClient 0)))"
    using validateSelection_try_returns[OF example_metadata d t(1) k(1)]
          validateSelection_try_returns[OF example_metadata d t(2) k(2)] f g
    by (auto simp: validateSelection_def)
  have x: "validateSelection_try ?w ''TAB638'' [(''region'', [''constructor''])] ''en'' (newClient 0) =
             (Inl startsWith_error, ?c)"
    using validateSelection_try_throws[OF example_metadata d t(3) k(3)] .
  show ?thesis
    using v t k x example_metadata example_fetch_failed d
      translated_selection_returned
        [where w = ?w and tableId = "''TAB638''" and lang = "''en''" and c = "newClient 0"
           and metadata = "example_dataset None" and c' = ?c and dims = example_dimensions
           and sel = "[(''region'', [''0180'']), (''year'', [''*''])]"
           and translated = "[(''Region'', [Str ''0180'']), (''Tid'', [Str ''*''])]"]
      translated_selection_returned
        [where w = ?w and tableId = "''TAB638''" and lang = "''en''" and c = "newClient 0"
           and metadata = "example_dataset None" and c' = ?c and dims = example_dimensions
           and sel = "[(''region'', [''9999''])]" and translated = "[(''Region'', [Str ''9999''])]"]
      translated_selection_returned
        [where w = "example_world (FetchRejects ''fetch failed'') :: int Dataset io"
           and tableId = "''TAB638''"
           and lang = "''en''" and c = "newClient 0" and c' = ?d and e = "Error ''fetch failed''"
           and sel = "[(''region'', [''9999''])]"]
      translated_selection_returned
        [where w = ?w and tableId = "''TAB638''" and lang = "''en''" and c = "newClient 0"
           and c' = ?c and e = startsWith_error
           and sel = "[(''region'', [''constructor''])]"]
    by simp
qed

text \<open>
  C6 as stated fails on the caught-exception path: the selection \<^verbatim>\<open>{"region": ["0180"]}\<close>
  is translated to \<^verbatim>\<open>{"Region": ["0180"]}\<close>, the fetch of the metadata rejects, and the
  result has no \<open>translatedSelection\<close>.
\<close>

theorem translated_selection_missing_counterexample:
  "translateSelectionValues (translateCommonVariables [(''region'', [''0180''])] ''en'') =
     Inr [(''Region'', [Str ''0180''])] \<and>
   translatedSelection
     (fst (validateSelection (example_world (FetchRejects ''fetch failed'') :: int Dataset io)
             ''TAB638'' [(''region'', [''0180''])] ''en'' (newClient 0))) = None"
proof -
  have "translateSelectionValues (translateCommonVariables [(''region'', [''0180''])] ''en'') =
          Inr [(''Region'', [Str ''0180''])]"
    by code_simp
  moreover have "translatedSelection
     (fst (validateSelection (example_world (FetchRejects ''fetch failed'') :: int Dataset io)
             ''TAB638'' [(''region'', [''0180''])] ''en'' (newClient 0))) = None"
    using validateSelection_try_failed[OF example_fetch_failed, of "[(''region'', [''0180''])]"]
    by (simp add: validateSelection_def)
  ultimately show ?thesis by simp
qed

section \<open>Decoding\<close>

lemma fold_push:
  "fold (\<lambda>(f, cell) records. case cell of None \<Rightarrow> records | Some v \<Rightarrow> records @ [g f v]) xs acc =
     acc @ map (\<lambda>(f, v). g f v)
             (concat (map (\<lambda>(f, cell). case cell of None \<Rightarrow> [] | Some v \<Rightarrow> [(f, v)]) xs))"
  by (induction xs arbitrary: acc) (auto split: option.splits)

lemma decodeCells_map:
  "decodeCells ds cells = map (\<lambda>(f, v). decodeRecord ds f v) (nonNullCells cells)"
  unfolding decodeCells_def nonNullCells_def
  using fold_push[of "decodeRecord ds" "zip [0..<length cells] cells" "[]"] by simp

lemma zip_upt_nth: "zip [0..<length xs] xs = map (\<lambda>i. (i, xs ! i)) [0..<length xs]"
  by (rule nth_equalityI) simp_all

lemma indices_of_some:
  "map fst (concat (map (\<lambda>i. case g i of None \<Rightarrow> [] | Some v \<Rightarrow> [(i, v)]) ns)) =
     filter (\<lambda>i. g i \<noteq> None) ns"
  by (induction ns) (auto split: option.splits)

lemma nonNullCells_indices:
  "map fst (nonNullCells cells) = filter (\<lambda>f. cells ! f \<noteq> None) [0..<length cells]"
  unfolding nonNullCells_def zip_upt_nth
  using indices_of_some[of "\<lambda>i. cells ! i" "[0..<length cells]"]
  by (simp add: comp_def)

lemma values_of_some:
  "map snd (concat (map (\<lambda>(f, cell). case cell of None \<Rightarrow> [] | Some v \<Rightarrow> [(f, v)]) (zip ns cells))) =
     concat (map (\<lambda>cell. case cell of None \<Rightarrow> [] | Some v \<Rightarrow> [v]) cells)"
  if "length ns = length cells" for ns :: "nat list"
  using that by (induction ns cells rule: list_induct2) (auto split: option.splits)

lemma nonNullCells_values:
  "map snd (nonNullCells cells) =
     concat (map (\<lambda>cell. case cell of None \<Rightarrow> [] | Some v \<Rightarrow> [v]) cells)"
  unfolding nonNullCells_def by (rule values_of_some) simp

lemma length_nonNullCells:
  "length (nonNullCells cells) = length (filter (\<lambda>c. c \<noteq> None) cells)"
proof -
  have "length (concat (map (\<lambda>cell. case cell of None \<Rightarrow> [] | Some v \<Rightarrow> [v]) cells)) =
        length (filter (\<lambda>c. c \<noteq> None) cells)"
    by (induction cells) (auto split: option.splits)
  then show ?thesis
    using nonNullCells_values[of cells] by (metis length_map)
qed

lemma decodeRecord_value: "map_of (decodeRecord ds f v) ''value'' = Some (Num v)"
  by (simp add: decodeRecord_def map_of_obj_set)

lemma transform_data:
  assumes "ds_value d = Some cells" "ds_dimension d = Some dims"
  shows "data (transformToStructuredData d sel) = decodeCells (own_entries dims) cells"
    and "total_records (summary (transformToStructuredData d sel)) =
           length (decodeCells (own_entries dims) cells)"
  using assms by (simp_all add: transformToStructuredData_def Let_def)

text \<open>
  C5, as the code has it. The decoder compares no lengths and has no error result. For
  every payload with a value array and a dimension mapping, whatever their sizes, it
  returns one record for every non-null entry of the array, in ascending order of the
  flat index, each with that entry as its \<^verbatim>\<open>value\<close>, and counts them in
  \<open>total_records\<close>.
\<close>

theorem decoder_never_flags_length:
  assumes "ds_value d = Some cells" and "ds_dimension d = Some dims"
  shows "length (data (transformToStructuredData d sel)) = length (filter (\<lambda>c. c \<noteq> None) cells) \<and>
         total_records (summary (transformToStructuredData d sel)) =
           length (filter (\<lambda>c. c \<noteq> None) cells) \<and>
         map (\<lambda>r. map_of r ''value'') (data (transformToStructuredData d sel)) =
           map (\<lambda>(f, v). Some (Num v)) (nonNullCells cells) \<and>
         map fst (nonNullCells cells) = filter (\<lambda>f. cells ! f \<noteq> None) [0..<length cells]"
proof -
  have 1: "length (data (transformToStructuredData d sel)) = length (filter (\<lambda>c. c \<noteq> None) cells)"
    by (simp add: transform_data(1)[OF assms] decodeCells_map length_nonNullCells)
  have 2: "total_records (summary (transformToStructuredData d sel)) =
           length (filter (\<lambda>c. c \<noteq> None) cells)"
    by (simp add: transform_data(2)[OF assms] decodeCells_map length_nonNullCells)
  have 3: "map (\<lambda>r. map_of r ''value'') (data (transformToStructuredData d sel)) =
           map (\<lambda>(f, v). Some (Num v)) (nonNullCells cells)"
    by (simp add: transform_data(1)[OF assms] decodeCells_map decodeRecord_value
                  split_def comp_def)
  show ?thesis
    using 1 2 3 nonNullCells_indices[of cells] by blast
qed

text \<open>C5, an instance: five cells for a table of two by two.\<close>

theorem decoder_never_flags_length_witness:
  "ds_value (example_dataset (Some [Some 10, None, Some 30, Some 40, Some 50])) =
     Some [Some 10, None, Some 30, Some 40, Some 50] \<and>
   ds_dimension (example_dataset (Some [Some 10, None, Some 30, Some 40, Some 50])) =
     Some example_dimensions \<and>
   length (data (transformToStructuredData
                   (example_dataset (Some [Some 10, None, Some 30, Some 40, Some 50])) None)) = 4 \<and>
   total_records (summary (transformToStructuredData
                   (example_dataset (Some [Some 10, None, Some 30, Some 40, Some 50])) None)) = 4 \<and>
   map (\<lambda>r. map_of r ''value'')
     (data (transformToStructuredData
              (example_dataset (Some [Some 10, None, Some 30, Some 40, Some 50])) None)) =
     [Some (Num 10), Some (Num 30), Some (Num 40), Some (Num 50)] \<and>
   map fst (nonNullCells [Some 10, None, Some (30 :: int), Some 40, Some 50]) = [0, 2, 3, 4]"
proof -
  let ?cells = "[Some 10, None, Some (30 :: int), Some 40, Some 50]"
  have h1: "ds_value (example_dataset (Some ?cells)) = Some ?cells"
    and h2: "ds_dimension (example_dataset (Some ?cells)) = Some example_dimensions"
    by (simp_all add: example_dataset_def)
  have n: "nonNullCells ?cells = [(0, 10), (2, 30), (3, 40), (4, 50)]"
    by (simp add: nonNullCells_def upt_rec)
  show ?thesis
    using h1 h2 decoder_never_flags_length[OF h1 h2, of None]
    by (simp add: n)
qed

text \<open>
  C5 as stated fails: with five cells for a table of two by two, the decoder returns four
  records, the last one for the cell past the end with the codes of flat index 0; with
  one cell it returns one record. Nothing is flagged.
\<close>

theorem decoder_length_mismatch_counterexample:
  "length [Some 10, None, Some (30 :: int), Some 40, Some 50] \<noteq>
     length (own_keys (cat_index (snd (example_dimensions ! 0)))) *
     length (own_keys (cat_index (snd (example_dimensions ! 1)))) \<and>
   data (transformToStructuredData
           (example_dataset (Some [Some 10, None, Some 30, Some 40, Some 50])) None) =
     [[(''year_code'', Val (Str ''2023'')), (''year_name'', Val (Str ''2023'')),
       (''region_code'', Val (Str ''1484'')), (''region_name'', Val (Str ''Lysekil'')),
       (''value'', Num 10)],
      [(''year_code'', Val (Str ''2023'')), (''year_name'', Val (Str ''2023'')),
       (''region_code'', Val (Str ''0180'')), (''region_name'', Val (Str ''Stockholm'')),
       (''value'', Num 30)],
      [(''year_code'', Val (Str ''2024'')), (''year_name'', Val (Str ''2024'')),
       (''region_code'', Val (Str ''0180'')), (''region_name'', Val (Str ''Stockholm'')),
       (''value'', Num 40)],
      [(''year_code'', Val (Str ''2023'')), (''year_name'', Val (Str ''2023'')),
       (''region_code'', Val (Str ''1484'')), (''region_name'', Val (Str ''Lysekil'')),
       (''value'', Num 50)]] \<and>
   length [Some (10 :: int)] \<noteq>
     length (own_keys (cat_index (snd (example_dimensions ! 0)))) *
     length (own_keys (cat_index (snd (example_dimensions ! 1)))) \<and>
   data (transformToStructuredData (example_dataset (Some [Some 10])) None) =
     [[(''year_code'', Val (Str ''2023'')), (''year_name'', Val (Str ''2023'')),
       (''region_code'', Val (Str ''1484'')), (''region_name'', Val (Str ''Lysekil'')),
       (''value'', Num 10)]]"
proof -
  have p: "length (own_keys (cat_index (snd (example_dimensions ! 0)))) *
           length (own_keys (cat_index (snd (example_dimensions ! 1)))) = 4"
    by (simp add: example_dimensions_def own_keys_def length_own_entries)
  have a: "data (transformToStructuredData
           (example_dataset (Some [Some 10, None, Some 30, Some 40, Some 50])) None) =
     [[(''year_code'', Val (Str ''2023'')), (''year_name'', Val (Str ''2023'')),
       (''region_code'', Val (Str ''1484'')), (''region_name'', Val (Str ''Lysekil'')),
       (''value'', Num 10)],
      [(''year_code'', Val (Str ''2023'')), (''year_name'', Val (Str ''2023'')),
       (''region_code'', Val (Str ''0180'')), (''region_name'', Val (Str ''Stockholm'')),
       (''value'', Num 30)],
      [(''year_code'', Val (Str ''2024'')), (''year_name'', Val (Str ''2024'')),
       (''region_code'', Val (Str ''0180'')), (''region_name'', Val (Str ''Stockholm'')),
       (''value'', Num 40)],
      [(''year_code'', Val (Str ''2023'')), (''year_name'', Val (Str ''2023'')),
       (''region_code'', Val (Str ''1484'')), (''region_name'', Val (Str ''Lysekil'')),
       (''value'', Num 50)]]"
    by code_simp
  have b: "data (transformToStructuredData (example_dataset (Some [Some 10])) None) =
     [[(''year_code'', Val (Str ''2023'')), (''year_name'', Val (Str ''2023'')),
       (''region_code'', Val (Str ''1484'')), (''region_name'', Val (Str ''Lysekil'')),
       (''value'', Num 10)]]"
    by code_simp
  show ?thesis
    using p a b by simp
qed

text \<open>
  C10. When the value array or the dimension mapping is missing, the decoder returns a
  result with no records, \<open>total_records = 0\<close> and \<open>has_data = False\<close>.
\<close>

theorem decoder_empty_without_data:
  assumes "ds_value d = None \<or> ds_dimension d = None"
  shows "data (transformToStructuredData d sel) = [] \<and>
         total_records (summary (transformToStructuredData d sel)) = 0 \<and>
         \<not> has_data (summary (transformToStructuredData d sel))"
  using assms by (auto simp: transformToStructuredData_def split: option.splits)

text \<open>C10, two instances: a dataset without values, and one without dimensions.\<close>

theorem decoder_empty_without_data_witness:
  "ds_value (example_dataset None) = None \<and>
   data (transformToStructuredData (example_dataset None) None) = [] \<and>
   total_records (summary (transformToStructuredData (example_dataset None) None)) = 0 \<and>
   \<not> has_data (summary (transformToStructuredData (example_dataset None) None)) \<and>
   ds_dimension ((example_dataset (Some [Some 10]))\<lparr>ds_dimension := None\<rparr>) = None \<and>
   data (transformToStructuredData ((example_dataset (Some [Some 10]))\<lparr>ds_dimension := None\<rparr>)
           None) = []"
  using decoder_empty_without_data[of "example_dataset None" None]
        decoder_empty_without_data[of "(example_dataset (Some [Some 10]))\<lparr>ds_dimension := None\<rparr>" None]
  by (simp add: example_dataset_def)

text \<open>
  C2 fails on a payload whose index does not list the codes in the order of
  \<^verbatim>\<open>Object.keys\<close>. The index \<^verbatim>\<open>{"0180": 0, "1484": 1}\<close> puts \<^verbatim>\<open>0180\<close> at position 0, but
  \<^verbatim>\<open>1484\<close> is an array index and \<^verbatim>\<open>0180\<close>, with its leading zero, is not, so
  \<^verbatim>\<open>Object.keys\<close> lists \<^verbatim>\<open>1484\<close> first: the decoder gives the cell of flat index 0, the
  value of \<^verbatim>\<open>0180\<close>, the code \<^verbatim>\<open>1484\<close> and its label, and the cell of flat index 1 the
  code \<^verbatim>\<open>0180\<close>. And the base name of a dimension called \<^verbatim>\<open>constructor\<close> is not the
  lower-cased code: the dictionary finds the inherited function.
\<close>

theorem decoder_ignores_index_positions:
  "map_of (cat_index (snd (reordered_dimensions ! 0))) ''0180'' = Some 0 \<and>
   map_of (cat_index (snd (reordered_dimensions ! 0))) ''1484'' = Some 1 \<and>
   own_keys (cat_index (snd (reordered_dimensions ! 0))) = [''1484'', ''0180''] \<and>
   data (transformToStructuredData reordered_dataset None) =
     [[(''year_code'', Val (Str ''2024'')), (''year_name'', Val (Str ''2024'')),
       (''region_code'', Val (Str ''1484'')), (''region_name'', Val (Str ''Lysekil'')),
       (''value'', Num 975551)],
      [(''year_code'', Val (Str ''2024'')), (''year_name'', Val (Str ''2024'')),
       (''region_code'', Val (Str ''0180'')), (''region_name'', Val (Str ''Stockholm'')),
       (''value'', Num 14621)]] \<and>
   getDimensionBaseName ''constructor'' = ''function Object() { [native code] }''"
proof -
  have a: "map_of (cat_index (snd (reordered_dimensions ! 0))) ''0180'' = Some 0"
          "map_of (cat_index (snd (reordered_dimensions ! 0))) ''1484'' = Some 1"
    by (simp_all add: reordered_dimensions_def)
  have b: "own_keys (cat_index (snd (reordered_dimensions ! 0))) = [''1484'', ''0180'']"
    by code_simp
  have c: "data (transformToStructuredData reordered_dataset None) =
     [[(''year_code'', Val (Str ''2024'')), (''year_name'', Val (Str ''2024'')),
       (''region_code'', Val (Str ''1484'')), (''region_name'', Val (Str ''Lysekil'')),
       (''value'', Num 975551)],
      [(''year_code'', Val (Str ''2024'')), (''year_name'', Val (Str ''2024'')),
       (''region_code'', Val (Str ''0180'')), (''region_name'', Val (Str ''Stockholm'')),
       (''value'', Num 14621)]]"
    by code_simp
  have d: "getDimensionBaseName ''constructor'' = ''function Object() { [native code] }''"
    by code_simp
  show ?thesis
    using a b c d by simp
qed

end
